theory Spec2Isabelle
  imports Complex_Main "HOL-Library.AList" "HOL-Library.Char_ord" "HOL-Library.List_Lexorder"
begin

section \<open>Data model\<close>

text \<open>
  The script \<^verbatim>\<open>Model.py\<close> is glue code over pandas, numpy and scikit-learn. A table cell is a
  null (\<^verbatim>\<open>NaN\<close>, \<^verbatim>\<open>None\<close> and \<^verbatim>\<open>NaT\<close> alike), a string, a number or a timestamp.
  Numbers are exact reals: the rounding of IEEE doubles is not modelled. Strings are lists of
  8-bit characters, compared and sorted character by character as Python does.
\<close>

record timestamp =
  ts_year :: int
  ts_month :: int
  ts_weekday :: int
  ts_hour :: int

datatype cell = NaN | Str string | Num real | Time timestamp

datatype datetime = NaT | TS timestamp

datatype error = KeyError | ValueError | TypeError | IndexError | LibError nat

text \<open>
  A raise is a value \<open>Inl e\<close>; \<open>ebind\<close> sequences two steps and stops at the first raise.
\<close>

definition ebind :: "error + 'a \<Rightarrow> ('a \<Rightarrow> error + 'b) \<Rightarrow> error + 'b" where
  "ebind m f = (case m of Inl e \<Rightarrow> Inl e | Inr x \<Rightarrow> f x)"

fun emap :: "('a \<Rightarrow> error + 'b) \<Rightarrow> 'a list \<Rightarrow> error + 'b list" where
  "emap f [] = Inr []"
| "emap f (x # xs) = ebind (f x) (\<lambda>y. ebind (emap f xs) (\<lambda>ys. Inr (y # ys)))"

text \<open>
  A DataFrame: the row labels and the columns in their order, each a name with its cells.
  A Series: the row labels and the values.
\<close>

record dataframe =
  index :: "nat list"
  cols :: "(string \<times> cell list) list"

record series =
  sindex :: "nat list"
  svalues :: "cell list"

definition columns :: "dataframe \<Rightarrow> string list" where
  "columns df = map fst (cols df)"

definition nrows :: "dataframe \<Rightarrow> nat" where
  "nrows df = length (index df)"

definition wf_dataframe :: "dataframe \<Rightarrow> bool" where
  "wf_dataframe df \<longleftrightarrow>
     distinct (index df) \<and> distinct (columns df) \<and>
     list_all (\<lambda>kv. length (snd kv) = nrows df) (cols df)"

text \<open>\<^verbatim>\<open>df[c]\<close>: the column, or KeyError.\<close>

definition df_get :: "dataframe \<Rightarrow> string \<Rightarrow> error + cell list" where
  "df_get df c = (case map_of (cols df) c of None \<Rightarrow> Inl KeyError | Some v \<Rightarrow> Inr v)"

text \<open>
  \<^verbatim>\<open>df[c] = values\<close>: replaces the column in place, or appends it as the last column;
  ValueError when the length is not the number of rows.
\<close>

definition df_set :: "dataframe \<Rightarrow> string \<Rightarrow> cell list \<Rightarrow> error + dataframe" where
  "df_set df c v =
     (if length v = nrows df then Inr (df\<lparr>cols := AList.update c v (cols df)\<rparr>)
      else Inl ValueError)"

text \<open>\<^verbatim>\<open>df.drop(labels, axis=1)\<close>: KeyError when a label is not a column.\<close>

definition df_drop :: "dataframe \<Rightarrow> string list \<Rightarrow> error + dataframe" where
  "df_drop df cs =
     (if list_all (\<lambda>c. c \<in> set (columns df)) cs
      then Inr (df\<lparr>cols := filter (\<lambda>kv. fst kv \<notin> set cs) (cols df)\<rparr>)
      else Inl KeyError)"

section \<open>The library calls of the preprocessing\<close>

text \<open>
  What Python and pandas compute from the text of a cell is a parameter: \<open>py_str\<close> is
  \<^verbatim>\<open>str()\<close> of a number or timestamp, \<open>parse_dt\<close> is the datetime parser of pandas on a
  string or number (\<open>None\<close> when it raises; it may answer \<^verbatim>\<open>NaT\<close>).
\<close>

record pylib =
  py_str :: "cell \<Rightarrow> string"
  parse_dt :: "cell \<Rightarrow> datetime option"

text \<open>\<^verbatim>\<open>Series.astype(str)\<close>: a null becomes the text \<^verbatim>\<open>nan\<close>.\<close>

definition astype_str :: "pylib \<Rightarrow> cell \<Rightarrow> cell" where
  "astype_str L c = (case c of NaN \<Rightarrow> Str ''nan'' | Str s \<Rightarrow> Str s | _ \<Rightarrow> Str (py_str L c))"

text \<open>Elementwise \<^verbatim>\<open>+\<close> and \<^verbatim>\<open>*\<close> of two columns; a null operand gives a null.\<close>

definition add_cell :: "cell \<Rightarrow> cell \<Rightarrow> error + cell" where
  "add_cell a b =
     (case (a, b) of
        (Str s, Str t) \<Rightarrow> Inr (Str (s @ t))
      | (Num x, Num y) \<Rightarrow> Inr (Num (x + y))
      | (NaN, NaN) \<Rightarrow> Inr NaN
      | (NaN, Num y) \<Rightarrow> Inr NaN
      | (Num x, NaN) \<Rightarrow> Inr NaN
      | (NaN, Str t) \<Rightarrow> Inr NaN
      | (Str s, NaN) \<Rightarrow> Inr NaN
      | _ \<Rightarrow> Inl TypeError)"

text \<open>
  The quantity and item total are numeric columns. On a string operand the model raises
  (pandas raises as well, except that it repeats a string multiplied by an integer).
\<close>

definition mul_cell :: "cell \<Rightarrow> cell \<Rightarrow> error + cell" where
  "mul_cell a b =
     (case (a, b) of
        (Num x, Num y) \<Rightarrow> Inr (Num (x * y))
      | (NaN, NaN) \<Rightarrow> Inr NaN
      | (NaN, Num y) \<Rightarrow> Inr NaN
      | (Num x, NaN) \<Rightarrow> Inr NaN
      | _ \<Rightarrow> Inl TypeError)"

fun zip_with :: "(cell \<Rightarrow> cell \<Rightarrow> error + cell) \<Rightarrow> cell list \<Rightarrow> cell list \<Rightarrow> error + cell list" where
  "zip_with f (x # xs) (y # ys) = ebind (f x y) (\<lambda>z. ebind (zip_with f xs ys) (\<lambda>zs. Inr (z # zs)))"
| "zip_with f [] [] = Inr []"
| "zip_with f _ _ = Inl ValueError"

text \<open>\<^verbatim>\<open>Series.fillna(v)\<close>.\<close>

definition fillna :: "cell \<Rightarrow> cell list \<Rightarrow> cell list" where
  "fillna v xs = map (\<lambda>c. if c = NaN then v else c) xs"

text \<open>
  \<^verbatim>\<open>pd.DatetimeIndex(column)\<close> and \<^verbatim>\<open>pd.to_datetime(column)\<close>: a null becomes \<^verbatim>\<open>NaT\<close>, a
  timestamp stays, anything else is parsed and an unparsable cell raises.
\<close>

definition to_datetime1 :: "pylib \<Rightarrow> cell \<Rightarrow> error + datetime" where
  "to_datetime1 L c =
     (case c of
        NaN \<Rightarrow> Inr NaT
      | Time t \<Rightarrow> Inr (TS t)
      | _ \<Rightarrow> (case parse_dt L c of None \<Rightarrow> Inl ValueError | Some d \<Rightarrow> Inr d))"

definition DatetimeIndex :: "pylib \<Rightarrow> cell list \<Rightarrow> error + datetime list" where
  "DatetimeIndex L xs = emap (to_datetime1 L) xs"

text \<open>
  The attributes \<^verbatim>\<open>.year\<close>, \<^verbatim>\<open>.month\<close>, \<^verbatim>\<open>.weekday\<close> and \<^verbatim>\<open>.hour\<close> of a DatetimeIndex: the
  field of each timestamp, and a null at each \<^verbatim>\<open>NaT\<close>.
\<close>

definition dt_field :: "(timestamp \<Rightarrow> int) \<Rightarrow> datetime \<Rightarrow> cell" where
  "dt_field f d = (case d of NaT \<Rightarrow> NaN | TS t \<Rightarrow> Num (of_int (f t)))"

definition dt_cell :: "datetime \<Rightarrow> cell" where
  "dt_cell d = (case d of NaT \<Rightarrow> NaN | TS t \<Rightarrow> Time t)"

text \<open>\<^verbatim>\<open>np.where(column == literal, 1, 0)\<close>: a null or a number is not equal to the literal.\<close>

definition where_eq :: "string \<Rightarrow> cell list \<Rightarrow> cell list" where
  "where_eq lit xs = map (\<lambda>c. if c = Str lit then Num 1 else Num 0) xs"

subsection \<open>LabelEncoder\<close>

text \<open>
  The state of a LabelEncoder is its \<^verbatim>\<open>classes_\<close> (\<open>None\<close> before the first fit). \<^verbatim>\<open>fit\<close>
  takes the distinct values that are not null, which must be all strings or all numbers,
  sorts them, and puts one null last when the column has a null. \<^verbatim>\<open>transform\<close> gives each
  value its position in \<^verbatim>\<open>classes_\<close>, \<^verbatim>\<open>inverse_transform\<close> reads the position back.
\<close>

type_synonym label_encoder = "cell list option"

definition is_Str :: "cell \<Rightarrow> bool" where
  "is_Str c = (case c of Str _ \<Rightarrow> True | _ \<Rightarrow> False)"

definition is_Num :: "cell \<Rightarrow> bool" where
  "is_Num c = (case c of Num _ \<Rightarrow> True | _ \<Rightarrow> False)"

definition str_of :: "cell \<Rightarrow> string" where
  "str_of c = (case c of Str s \<Rightarrow> s | _ \<Rightarrow> [])"

definition num_of :: "cell \<Rightarrow> real" where
  "num_of c = (case c of Num x \<Rightarrow> x | _ \<Rightarrow> 0)"

definition unique_sorted :: "cell list \<Rightarrow> error + cell list" where
  "unique_sorted xs =
     (let vals = filter (\<lambda>c. c \<noteq> NaN) xs;
          missing = (if NaN \<in> set xs then [NaN] else [])
      in if list_all is_Str vals then Inr (map Str (sort (remdups (map str_of vals))) @ missing)
         else if list_all is_Num vals then Inr (map Num (sort (remdups (map num_of vals))) @ missing)
         else Inl TypeError)"

fun index_of :: "cell list \<Rightarrow> cell \<Rightarrow> nat option" where
  "index_of [] v = None"
| "index_of (c # cs) v = (if c = v then Some 0 else map_option Suc (index_of cs v))"

definition le_fit :: "label_encoder \<Rightarrow> cell list \<Rightarrow> error + label_encoder" where
  "le_fit le y = ebind (unique_sorted y) (\<lambda>classes. Inr (Some classes))"

definition le_transform :: "label_encoder \<Rightarrow> cell list \<Rightarrow> error + cell list" where
  "le_transform le y =
     (case le of
        None \<Rightarrow> Inl (LibError 0)
      | Some classes \<Rightarrow>
          emap (\<lambda>v. case index_of classes v of None \<Rightarrow> Inl ValueError
                                             | Some i \<Rightarrow> Inr (Num (of_nat i))) y)"

definition le_fit_transform :: "label_encoder \<Rightarrow> cell list \<Rightarrow> error + (label_encoder \<times> cell list)" where
  "le_fit_transform le y =
     ebind (le_fit le y) (\<lambda>le'. ebind (le_transform le' y) (\<lambda>codes. Inr (le', codes)))"

definition decode1 :: "cell list \<Rightarrow> cell \<Rightarrow> error + cell" where
  "decode1 classes c =
     (case c of
        Num x \<Rightarrow> (if x = of_nat (nat \<lfloor>x\<rfloor>) \<and> nat \<lfloor>x\<rfloor> < length classes
                  then Inr (classes ! nat \<lfloor>x\<rfloor>) else Inl ValueError)
      | _ \<Rightarrow> Inl ValueError)"

definition le_inverse_transform :: "label_encoder \<Rightarrow> cell list \<Rightarrow> error + cell list" where
  "le_inverse_transform le y =
     (case le of None \<Rightarrow> Inl (LibError 0) | Some classes \<Rightarrow> emap (decode1 classes) y)"

section \<open>preprocess\_data\<close>

definition dropped_columns :: "string list" where
  "dropped_columns =
     [''Customer Email'', ''Product Status'', ''Customer Password'', ''Customer Street'',
      ''Customer Fname'', ''Customer Lname'', ''Latitude'', ''Longitude'',
      ''Product Description'', ''Product Image'', ''Order Zipcode'',
      ''shipping date (DateOrders)'']"

definition redundant_columns :: "string list" where
  "redundant_columns =
     [''Delivery Status'', ''Late_delivery_risk'', ''Order Status'', ''order date (DateOrders)'']"

definition categorical_columns :: "string list" where
  "categorical_columns =
     [''Customer Country'', ''Market'', ''Type'', ''Product Name'', ''Customer Segment'',
      ''Customer State'', ''Order Region'', ''Order City'', ''Category Name'',
      ''Customer City'', ''Department Name'', ''Order State'', ''Shipping Mode'',
      ''order_week_day'', ''Order Country'', ''Customer Full Name'']"

text \<open>
  The loop \<^verbatim>\<open>for col in categorical_columns: data[col] = le.fit_transform(data[col])\<close>
  with its one encoder object, refitted at every column.
\<close>

fun encode_columns :: "label_encoder \<Rightarrow> string list \<Rightarrow> dataframe \<Rightarrow> error + (label_encoder \<times> dataframe)" where
  "encode_columns le [] data = Inr (le, data)"
| "encode_columns le (col # rest) data =
     ebind (df_get data col) (\<lambda>y.
     ebind (le_fit_transform le y) (\<lambda>(le', codes).
     ebind (df_set data col codes) (\<lambda>data'.
     encode_columns le' rest data')))"

text \<open>
  Lines 37 to 61 of the source, in its order: the full name, the first drop, the zipcode, the
  four parts of the order date, the total price, the parsed order date, the two labels.
  (The source also leaves the full-name column in the caller's table; nothing reads it.)
\<close>

definition derive_columns :: "pylib \<Rightarrow> dataframe \<Rightarrow> error + dataframe" where
  "derive_columns L dataset =
     ebind (df_get dataset ''Customer Fname'') (\<lambda>fname.
     ebind (df_get dataset ''Customer Lname'') (\<lambda>lname.
     ebind (zip_with add_cell (map (astype_str L) fname) (map (astype_str L) lname)) (\<lambda>full.
     ebind (df_set dataset ''Customer Full Name'' full) (\<lambda>dataset1.
     ebind (df_drop dataset1 dropped_columns) (\<lambda>data0.
     ebind (df_get data0 ''Customer Zipcode'') (\<lambda>zipcode.
     ebind (df_set data0 ''Customer Zipcode'' (fillna (Num 0) zipcode)) (\<lambda>data1.
     ebind (df_get data1 ''order date (DateOrders)'') (\<lambda>od.
     ebind (DatetimeIndex L od) (\<lambda>dti.
     ebind (df_set data1 ''order_year'' (map (dt_field ts_year) dti)) (\<lambda>data2.
     ebind (df_set data2 ''order_month'' (map (dt_field ts_month) dti)) (\<lambda>data3.
     ebind (df_set data3 ''order_week_day'' (map (dt_field ts_weekday) dti)) (\<lambda>data4.
     ebind (df_set data4 ''order_hour'' (map (dt_field ts_hour) dti)) (\<lambda>data5.
     ebind (df_get data5 ''Order Item Quantity'') (\<lambda>qty.
     ebind (df_get data5 ''Order Item Total'') (\<lambda>tot.
     ebind (zip_with mul_cell qty tot) (\<lambda>price.
     ebind (df_set data5 ''TotalPrice'' price) (\<lambda>data6.
     ebind (df_set data6 ''order date (DateOrders)'' (map dt_cell dti)) (\<lambda>data7.
     ebind (df_get data7 ''Order Status'') (\<lambda>status.
     ebind (df_set data7 ''fraud'' (where_eq ''SUSPECTED_FRAUD'' status)) (\<lambda>data8.
     ebind (df_get data8 ''Delivery Status'') (\<lambda>delivery.
     df_set data8 ''late_delivery'' (where_eq ''Late delivery'' delivery))))))))))))))))))))))"

text \<open>Lines 64 to 76: the second drop, the encoding loop, the returned table.\<close>

definition preprocess_data :: "pylib \<Rightarrow> dataframe \<Rightarrow> error + dataframe" where
  "preprocess_data L dataset =
     ebind (derive_columns L dataset) (\<lambda>data9.
     ebind (df_drop data9 redundant_columns) (\<lambda>data10.
     ebind (encode_columns None categorical_columns data10) (\<lambda>(le, data). Inr data)))"

section \<open>split\_data\<close>

text \<open>
  numpy's generator is a parameter: \<open>seed_state s\<close> is the state of a fresh
  \<^verbatim>\<open>RandomState(s)\<close>, \<open>permutation g n\<close> is \<^verbatim>\<open>g.permutation(n)\<close> with the state it leaves.
  \<open>g\<close> below is the state of numpy's global generator, which \<^verbatim>\<open>check_random_state\<close> uses
  when no seed is given; with a seed it builds a generator of its own.
\<close>

record 'g np_random =
  seed_state :: "nat \<Rightarrow> 'g"
  permutation :: "'g \<Rightarrow> nat \<Rightarrow> nat list \<times> 'g"

definition rng_permutation :: "'g np_random \<Rightarrow> nat option \<Rightarrow> nat \<Rightarrow> 'g \<Rightarrow> nat list \<times> 'g" where
  "rng_permutation R random_state n g =
     (case random_state of
        None \<Rightarrow> permutation R g n
      | Some s \<Rightarrow> (fst (permutation R (seed_state R s) n), g))"

text \<open>
  \<^verbatim>\<open>_validate_shuffle_split\<close> for a fractional test size and no train size:
  \<^verbatim>\<open>n_test = ceil(test_size * n_samples)\<close>, \<^verbatim>\<open>n_train = n_samples - n_test\<close>, and
  ValueError when the train set would be empty. (For \<^verbatim>\<open>test_size = 0.2\<close> the product in
  doubles has the ceiling of the exact product for every row count below \<open>2 ^ 50\<close>.)
\<close>

definition validate_shuffle_split :: "nat \<Rightarrow> rat \<Rightarrow> error + (nat \<times> nat)" where
  "validate_shuffle_split n_samples test_size =
     (if test_size \<le> 0 \<or> 1 \<le> test_size then Inl ValueError
      else let n_test = nat \<lceil>test_size * of_nat n_samples\<rceil>;
               n_train = n_samples - n_test
           in if n_train = 0 then Inl ValueError else Inr (n_train, n_test))"

text \<open>Selection of rows by position (\<^verbatim>\<open>iloc\<close>); a position out of range raises.\<close>

definition take_rows :: "nat list \<Rightarrow> 'a list \<Rightarrow> error + 'a list" where
  "take_rows idx xs =
     (if list_all (\<lambda>i. i < length xs) idx then Inr (map (\<lambda>i. xs ! i) idx) else Inl IndexError)"

definition df_iloc :: "dataframe \<Rightarrow> nat list \<Rightarrow> error + dataframe" where
  "df_iloc df idx =
     ebind (take_rows idx (index df)) (\<lambda>ix.
     ebind (emap (\<lambda>kv. ebind (take_rows idx (snd kv)) (\<lambda>v. Inr (fst kv, v))) (cols df)) (\<lambda>cs.
     Inr \<lparr>index = ix, cols = cs\<rparr>))"

definition series_iloc :: "series \<Rightarrow> nat list \<Rightarrow> error + series" where
  "series_iloc y idx =
     ebind (take_rows idx (sindex y)) (\<lambda>ix.
     ebind (take_rows idx (svalues y)) (\<lambda>v.
     Inr \<lparr>sindex = ix, svalues = v\<rparr>))"

text \<open>
  \<^verbatim>\<open>train_test_split(X, y, test_size, random_state)\<close> without stratification: one
  permutation of the row positions, its first \<open>n_test\<close> positions are the test rows and the
  next \<open>n_train\<close> the train rows.
\<close>

definition train_test_split ::
  "'g np_random \<Rightarrow> dataframe \<Rightarrow> series \<Rightarrow> rat \<Rightarrow> nat option \<Rightarrow> 'g \<Rightarrow>
   (error + (dataframe \<times> dataframe \<times> series \<times> series)) \<times> 'g" where
  "train_test_split R X y test_size random_state g =
     (if length (svalues y) \<noteq> nrows X then (Inl ValueError, g)
      else case validate_shuffle_split (nrows X) test_size of
        Inl e \<Rightarrow> (Inl e, g)
      | Inr (n_train, n_test) \<Rightarrow>
          (let (perm, g') = rng_permutation R random_state (nrows X) g;
               ind_test = take n_test perm;
               ind_train = take n_train (drop n_test perm)
           in (ebind (df_iloc X ind_train) (\<lambda>X_train.
               ebind (df_iloc X ind_test) (\<lambda>X_test.
               ebind (series_iloc y ind_train) (\<lambda>y_train.
               ebind (series_iloc y ind_test) (\<lambda>y_test.
               Inr (X_train, X_test, y_train, y_test))))), g')))"

text \<open>\<^verbatim>\<open>data.loc[:, data.columns != target_col]\<close>: the columns under a boolean mask.\<close>

definition df_loc_columns :: "dataframe \<Rightarrow> (string \<Rightarrow> bool) \<Rightarrow> dataframe" where
  "df_loc_columns df keep = df\<lparr>cols := filter (\<lambda>kv. keep (fst kv)) (cols df)\<rparr>"

definition split_data ::
  "'g np_random \<Rightarrow> dataframe \<Rightarrow> string \<Rightarrow> 'g \<Rightarrow>
   (error + (dataframe \<times> dataframe \<times> series \<times> series)) \<times> 'g" where
  "split_data R data target_col g =
     (let X = df_loc_columns data (\<lambda>c. c \<noteq> target_col)
      in case df_get data target_col of
           Inl e \<Rightarrow> (Inl e, g)
         | Inr v \<Rightarrow>
             train_test_split R X \<lparr>sindex = index data, svalues = v\<rparr> (1 / 5) (Some 42) g)"

section \<open>standardize\_data\<close>

text \<open>
  A feature matrix is a list of rows; an entry is a number or \<^verbatim>\<open>NaN\<close> (\<open>None\<close>).
  \<^verbatim>\<open>StandardScaler.fit\<close> takes, for every column, the mean and the population variance of
  the entries that are not \<^verbatim>\<open>NaN\<close>; the scale is the square root of the variance, and 1 for a
  column that counts as constant. \<^verbatim>\<open>transform\<close> subtracts the mean and divides by the scale. A matrix with
  no row, with no column or with rows of different lengths raises, and so does a matrix
  whose number of columns is not that of the fit. (The square root is the one of the reals:
  the simplifier evaluates it on the examples, the code generator does not.)
\<close>

type_synonym matrix = "real option list list"

record standard_scaler =
  sc_mean :: "real option list"
  sc_var :: "real option list"
  sc_scale :: "real option list"

definition check_array :: "matrix \<Rightarrow> error + nat" where
  "check_array X =
     (case X of
        [] \<Rightarrow> Inl ValueError
      | r # rs \<Rightarrow> (if length r = 0 \<or> \<not> list_all (\<lambda>r'. length r' = length r) rs
                   then Inl ValueError else Inr (length r)))"

definition column_of :: "matrix \<Rightarrow> nat \<Rightarrow> real option list" where
  "column_of X j = map (\<lambda>r. r ! j) X"

definition present :: "real option list \<Rightarrow> real list" where
  "present col = map the (filter (\<lambda>c. c \<noteq> None) col)"

definition nanmean :: "real option list \<Rightarrow> real option" where
  "nanmean col =
     (let vs = present col
      in if vs = [] then None else Some (sum_list vs / of_nat (length vs)))"

definition nanvar :: "real option list \<Rightarrow> real option" where
  "nanvar col =
     (case nanmean col of
        None \<Rightarrow> None
      | Some m \<Rightarrow> Some (sum_list (map (\<lambda>v. (v - m) ^ 2) (present col)) / of_nat (length (present col))))"

text \<open>
  \<^verbatim>\<open>_is_constant_feature(var, mean, n_samples)\<close>: a column whose variance is within the
  error bound of its computation counts as constant. \<open>float_eps\<close> is the machine epsilon
  of a double, and \<open>n_samples\<close> is the number of entries of the column that are not
  \<^verbatim>\<open>NaN\<close>.
\<close>

definition float_eps :: real where
  "float_eps = 1 / 2 ^ 52"

definition is_constant_feature :: "real \<Rightarrow> real \<Rightarrow> nat \<Rightarrow> bool" where
  "is_constant_feature var mean n_samples \<longleftrightarrow>
     var \<le> of_nat n_samples * float_eps * var + (of_nat n_samples * mean * float_eps) ^ 2"

definition scale_of :: "real option list \<Rightarrow> real option" where
  "scale_of col =
     (case (nanvar col, nanmean col) of
        (Some v, Some m) \<Rightarrow>
          Some (if is_constant_feature v m (length (present col)) then 1 else sqrt v)
      | _ \<Rightarrow> None)"

definition scaler_fit :: "standard_scaler option \<Rightarrow> matrix \<Rightarrow> error + standard_scaler option" where
  "scaler_fit scaler X =
     ebind (check_array X) (\<lambda>d.
       let cs = map (column_of X) [0..<d]
       in Inr (Some \<lparr>sc_mean = map nanmean cs,
                      sc_var = map nanvar cs,
                      sc_scale = map scale_of cs\<rparr>))"

definition scale_entry :: "real option \<Rightarrow> real option \<Rightarrow> real option \<Rightarrow> real option" where
  "scale_entry x m s =
     (case (x, m, s) of (Some a, Some b, Some c) \<Rightarrow> Some ((a - b) / c) | _ \<Rightarrow> None)"

definition scaler_transform :: "standard_scaler option \<Rightarrow> matrix \<Rightarrow> error + matrix" where
  "scaler_transform scaler X =
     (case scaler of
        None \<Rightarrow> Inl (LibError 0)
      | Some sc \<Rightarrow>
          ebind (check_array X) (\<lambda>d.
            if d \<noteq> length (sc_mean sc) then Inl ValueError
            else Inr (map (\<lambda>r. map (\<lambda>j. scale_entry (r ! j) (sc_mean sc ! j) (sc_scale sc ! j)) [0..<d]) X)))"

definition scaler_fit_transform ::
  "standard_scaler option \<Rightarrow> matrix \<Rightarrow> error + (standard_scaler option \<times> matrix)" where
  "scaler_fit_transform scaler X =
     ebind (scaler_fit scaler X) (\<lambda>scaler'.
     ebind (scaler_transform scaler' X) (\<lambda>X'. Inr (scaler', X')))"

text \<open>
  The body of \<^verbatim>\<open>standardize_data\<close> with its local scaler: \<open>standardize_run\<close> also gives the
  scaler as the body leaves it, \<open>standardize_data\<close> is what the source returns.
\<close>

definition standardize_run ::
  "matrix \<Rightarrow> matrix \<Rightarrow> error + (standard_scaler option \<times> matrix \<times> matrix)" where
  "standardize_run X_train X_test =
     ebind (scaler_fit_transform None X_train) (\<lambda>(scaler, X_train').
     ebind (scaler_transform scaler X_test) (\<lambda>X_test'.
     Inr (scaler, X_train', X_test')))"


section \<open>evaluate\_model and run\_models\<close>

text \<open>
  The classifiers and the metrics of scikit-learn and xgboost are parameters. \<open>fit\<close> reads and
  advances the random state of the process; what it learns has the type \<open>'p\<close>. A model is
  an object in a store: \<open>objects\<close> holds, at each address, the class of the estimator and
  what it has learned (\<open>None\<close> before its first fit). The trace lists the calls of
  \<^verbatim>\<open>fit\<close> and \<^verbatim>\<open>predict\<close> with the address of the object they are called on, and the writes
  of a file; a \<open>Fit\<close> event says whether the object had been fitted before this call, and
  the event of a call says what the call raised (\<open>None\<close> when it returned). The
  progress bars and the printed reports are not modelled. A Python reference always points
  to an object; for an address outside the store the model answers an error.
\<close>

datatype classifier =
    LogisticRegression string
  | GaussianNB
  | LinearSVC
  | KNeighborsClassifier nat
  | LinearDiscriminantAnalysis
  | RandomForestClassifier
  | ExtraTreesClassifier
  | XGBClassifier
  | DecisionTreeClassifier

fun class_name :: "classifier \<Rightarrow> string" where
  "class_name (LogisticRegression _) = ''LogisticRegression''"
| "class_name GaussianNB = ''GaussianNB''"
| "class_name LinearSVC = ''LinearSVC''"
| "class_name (KNeighborsClassifier _) = ''KNeighborsClassifier''"
| "class_name LinearDiscriminantAnalysis = ''LinearDiscriminantAnalysis''"
| "class_name RandomForestClassifier = ''RandomForestClassifier''"
| "class_name ExtraTreesClassifier = ''ExtraTreesClassifier''"
| "class_name XGBClassifier = ''XGBClassifier''"
| "class_name DecisionTreeClassifier = ''DecisionTreeClassifier''"

record ('g, 'p) sklearn =
  fit :: "classifier \<Rightarrow> matrix \<Rightarrow> cell list \<Rightarrow> 'g \<Rightarrow> (error + 'p) \<times> 'g"
  predict :: "classifier \<Rightarrow> 'p \<Rightarrow> matrix \<Rightarrow> error + cell list"
  accuracy_score :: "cell list \<Rightarrow> cell list \<Rightarrow> error + real"
  recall_score :: "cell list \<Rightarrow> cell list \<Rightarrow> error + real"
  f1_score :: "cell list \<Rightarrow> cell list \<Rightarrow> error + real"
  confusion_matrix :: "cell list \<Rightarrow> cell list \<Rightarrow> error + nat list list"

record result_row =
  Model :: string
  Fraud_Detection_Accuracy :: real
  Fraud_Detection_Recall :: real
  Fraud_Detection_F1 :: real
  Late_Delivery_Accuracy :: real
  Late_Delivery_Recall :: real
  Late_Delivery_F1 :: real

datatype event =
    Fit nat string bool "error option"
  | Predict nat string "error option"
  | ToCsv string "result_row list"

record ('g, 'p) world =
  objects :: "(classifier \<times> 'p option) list"
  trace :: "event list"
  rng :: 'g

definition evaluate_model ::
  "('g, 'p) sklearn \<Rightarrow> nat \<Rightarrow> matrix \<Rightarrow> matrix \<Rightarrow> series \<Rightarrow> series \<Rightarrow> string \<Rightarrow>
   ('g, 'p) world \<Rightarrow> (error + (real \<times> real \<times> real)) \<times> ('g, 'p) world" where
  "evaluate_model S model X_train X_test y_train y_test target_name w =
     (if length (objects w) \<le> model then (Inl (LibError 1), w)
      else
        let (kind, learned) = objects w ! model
        in case fit S kind X_train (svalues y_train) (rng w) of
             (Inl e, g) \<Rightarrow>
               (Inl e, w\<lparr>trace := trace w @ [Fit model target_name (learned \<noteq> None) (Some e)],
                         rng := g\<rparr>)
           | (Inr p, g) \<Rightarrow>
               (let w2 = w\<lparr>objects := (objects w)[model := (kind, Some p)],
                           trace := trace w @ [Fit model target_name (learned \<noteq> None) None],
                           rng := g\<rparr>;
                    y = predict S kind p X_test;
                    w3 = w2\<lparr>trace := trace w2 @
                           [Predict model target_name (case y of Inl e \<Rightarrow> Some e | Inr _ \<Rightarrow> None)]\<rparr>
                in (ebind y (\<lambda>y_pred.
                    ebind (accuracy_score S (svalues y_test) y_pred) (\<lambda>accuracy.
                    ebind (recall_score S (svalues y_test) y_pred) (\<lambda>recall.
                    ebind (f1_score S (svalues y_test) y_pred) (\<lambda>f1.
                    ebind (confusion_matrix S (svalues y_test) y_pred) (\<lambda>conf_matrix.
                    Inr (accuracy, recall, f1)))))), w3)))"

definition roster :: "classifier list" where
  "roster =
     [LogisticRegression ''lbfgs'', GaussianNB, LinearSVC, KNeighborsClassifier 1,
      LinearDiscriminantAnalysis, RandomForestClassifier, ExtraTreesClassifier,
      XGBClassifier, DecisionTreeClassifier]"

text \<open>The two splits that \<^verbatim>\<open>run_models\<close> receives, as one argument each.\<close>

type_synonym split = "matrix \<times> matrix \<times> series \<times> series"

definition eval_on ::
  "('g, 'p) sklearn \<Rightarrow> nat \<Rightarrow> split \<Rightarrow> string \<Rightarrow> ('g, 'p) world \<Rightarrow>
   (error + (real \<times> real \<times> real)) \<times> ('g, 'p) world" where
  "eval_on S model sp target_name w =
     (case sp of (X_train, X_test, y_train, y_test) \<Rightarrow>
        evaluate_model S model X_train X_test y_train y_test target_name w)"

text \<open>The loop over the models: each model is evaluated on the fraud split, then on the
  late-delivery split, and its row is appended to the results.\<close>

fun run_loop ::
  "('g, 'p) sklearn \<Rightarrow> split \<Rightarrow> split \<Rightarrow> nat list \<Rightarrow> result_row list \<Rightarrow> ('g, 'p) world \<Rightarrow>
   (error + result_row list) \<times> ('g, 'p) world" where
  "run_loop S sp_f sp_l [] results w = (Inr results, w)"
| "run_loop S sp_f sp_l (model # rest) results w =
     (case eval_on S model sp_f ''fraud'' w of
        (Inl e, w1) \<Rightarrow> (Inl e, w1)
      | (Inr (acc_f, recall_f, f1_f), w1) \<Rightarrow>
          (case eval_on S model sp_l ''late_delivery'' w1 of
             (Inl e, w2) \<Rightarrow> (Inl e, w2)
           | (Inr (acc_l, recall_l, f1_l), w2) \<Rightarrow>
               run_loop S sp_f sp_l rest
                 (results @
                  [\<lparr>Model = class_name (fst (objects w2 ! model)),
                    Fraud_Detection_Accuracy = acc_f,
                    Fraud_Detection_Recall = recall_f,
                    Fraud_Detection_F1 = f1_f,
                    Late_Delivery_Accuracy = acc_l,
                    Late_Delivery_Recall = recall_l,
                    Late_Delivery_F1 = f1_l\<rparr>]) w2))"

text \<open>
  \<^verbatim>\<open>run_models\<close>: the nine objects of the roster are created, the loop runs over them, and
  the results are written to \<^verbatim>\<open>model_results.txt\<close> after the loop.
\<close>

definition run_models ::
  "('g, 'p) sklearn \<Rightarrow> matrix \<Rightarrow> matrix \<Rightarrow> series \<Rightarrow> series \<Rightarrow> matrix \<Rightarrow> matrix \<Rightarrow> series \<Rightarrow> series \<Rightarrow>
   ('g, 'p) world \<Rightarrow> (error + result_row list) \<times> ('g, 'p) world" where
  "run_models S X_train_f X_test_f y_train_f y_test_f X_train_l X_test_l y_train_l y_test_l w =
     (let base = length (objects w);
          w0 = w\<lparr>objects := objects w @ map (\<lambda>k. (k, None)) roster\<rparr>;
          models = [base..<base + length roster]
      in case run_loop S (X_train_f, X_test_f, y_train_f, y_test_f)
                (X_train_l, X_test_l, y_train_l, y_test_l) models [] w0 of
           (Inl e, w1) \<Rightarrow> (Inl e, w1)
         | (Inr results, w1) \<Rightarrow>
             (Inr results, w1\<lparr>trace := trace w1 @ [ToCsv ''model_results.txt'' results]\<rparr>))"

section \<open>Example inputs\<close>

text \<open>
  A table of two rows with the columns that the preprocessing reads and twenty numeric
  columns that it leaves alone. The second row has no last name, no zipcode, no order date
  and no order status.
\<close>

definition example_lib :: pylib where
  "example_lib = \<lparr>py_str = (\<lambda>c. ''num''),
            parse_dt = (\<lambda>c. if c = Str ''1/31/2018 22:56''
                              then Some (TS \<lparr>ts_year = 2018, ts_month = 1, ts_weekday = 2, ts_hour = 22\<rparr>)
                              else None)\<rparr>"

definition example_dataset :: dataframe where
  "example_dataset = \<lparr>index = [0, 1], cols =
     [(''Type'', [Str ''DEBIT'', Str ''CASH'']),
      (''Days for shipping (real)'', [Num 3, Num 5]),
      (''Days for shipment (scheduled)'', [Num 4, Num 4]),
      (''Benefit per order'', [Num 91, Num (-249)]),
      (''Sales per customer'', [Num 314, Num 311]),
      (''Delivery Status'', [Str ''Late delivery'', Str ''Shipping on time'']),
      (''Late_delivery_risk'', [Num 1, Num 0]),
      (''Category Id'', [Num 73, Num 73]),
      (''Category Name'', [Str ''Sporting Goods'', Str ''Sporting Goods'']),
      (''Customer City'', [Str ''Caguas'', Str ''Chicago'']),
      (''Customer Country'', [Str ''Puerto Rico'', Str ''EE. UU.'']),
      (''Customer Email'', [Str ''XXXXXXXXX'', Str ''XXXXXXXXX'']),
      (''Customer Fname'', [Str ''Mary'', Str ''Ann'']),
      (''Customer Id'', [Num 20755, Num 19492]),
      (''Customer Lname'', [Str ''Smith'', NaN]),
      (''Customer Password'', [Str ''XXXXXXXXX'', Str ''XXXXXXXXX'']),
      (''Customer Segment'', [Str ''Consumer'', Str ''Corporate'']),
      (''Customer State'', [Str ''PR'', Str ''IL'']),
      (''Customer Street'', [Str ''5365 Noble Nectar Island'', Str ''2679 Rustic Loop'']),
      (''Customer Zipcode'', [Num 725, NaN]),
      (''Department Id'', [Num 2, Num 2]),
      (''Department Name'', [Str ''Fitness'', Str ''Fitness'']),
      (''Latitude'', [Num 18, Num 41]),
      (''Longitude'', [Num (-66), Num (-87)]),
      (''Market'', [Str ''LATAM'', Str ''USCA'']),
      (''Order City'', [Str ''Bogota'', Str ''Austin'']),
      (''Order Country'', [Str ''Colombia'', Str ''Estados Unidos'']),
      (''Order Customer Id'', [Num 20755, Num 19492]),
      (''order date (DateOrders)'', [Str ''1/31/2018 22:56'', NaN]),
      (''Order Id'', [Num 77202, Num 75939]),
      (''Order Item Cardprod Id'', [Num 1360, Num 1360]),
      (''Order Item Discount'', [Num 13, Num 16]),
      (''Order Item Discount Rate'', [Num 0, Num 0]),
      (''Order Item Id'', [Num 180517, Num 179254]),
      (''Order Item Product Price'', [Num 328, Num 328]),
      (''Order Item Profit Ratio'', [Num 0, Num (-1)]),
      (''Order Item Quantity'', [Num 2, Num 1]),
      (''Sales'', [Num 328, Num 328]),
      (''Order Item Total'', [Num 50, Num 30]),
      (''Order Profit Per Order'', [Num 91, Num (-249)]),
      (''Order Region'', [Str ''South America'', Str ''US Center'']),
      (''Order State'', [Str ''Cundinamarca'', Str ''Texas'']),
      (''Order Status'', [Str ''SUSPECTED_FRAUD'', NaN]),
      (''Order Zipcode'', [NaN, NaN]),
      (''Product Card Id'', [Num 1360, Num 1360]),
      (''Product Category Id'', [Num 73, Num 73]),
      (''Product Description'', [NaN, NaN]),
      (''Product Image'', [Str ''http://images/a'', Str ''http://images/b'']),
      (''Product Name'', [Str ''Smart watch'', Str ''Smart watch'']),
      (''Product Price'', [Num 328, Num 328]),
      (''Product Status'', [Num 0, Num 0]),
      (''shipping date (DateOrders)'', [Str ''2/3/2018 22:56'', Str ''2/4/2018 1:00'']),
      (''Shipping Mode'', [Str ''Standard Class'', Str ''First Class''])]\<rparr>"

text \<open>The table that the preprocessing returns for it.\<close>

definition example_processed :: dataframe where
  "example_processed = \<lparr>index = [0, 1], cols =
     [(''Type'', [Num 1, Num 0]),
      (''Days for shipping (real)'', [Num 3, Num 5]),
      (''Days for shipment (scheduled)'', [Num 4, Num 4]),
      (''Benefit per order'', [Num 91, Num (- 249)]),
      (''Sales per customer'', [Num 314, Num 311]),
      (''Category Id'', [Num 73, Num 73]),
      (''Category Name'', [Num 0, Num 0]),
      (''Customer City'', [Num 0, Num 1]),
      (''Customer Country'', [Num 1, Num 0]),
      (''Customer Id'', [Num 20755, Num 19492]),
      (''Customer Segment'', [Num 0, Num 1]),
      (''Customer State'', [Num 1, Num 0]),
      (''Customer Zipcode'', [Num 725, Num 0]),
      (''Department Id'', [Num 2, Num 2]),
      (''Department Name'', [Num 0, Num 0]),
      (''Market'', [Num 0, Num 1]),
      (''Order City'', [Num 1, Num 0]),
      (''Order Country'', [Num 0, Num 1]),
      (''Order Customer Id'', [Num 20755, Num 19492]),
      (''Order Id'', [Num 77202, Num 75939]),
      (''Order Item Cardprod Id'', [Num 1360, Num 1360]),
      (''Order Item Discount'', [Num 13, Num 16]),
      (''Order Item Discount Rate'', [Num 0, Num 0]),
      (''Order Item Id'', [Num 180517, Num 179254]),
      (''Order Item Product Price'', [Num 328, Num 328]),
      (''Order Item Profit Ratio'', [Num 0, Num (- 1)]),
      (''Order Item Quantity'', [Num 2, Num 1]),
      (''Sales'', [Num 328, Num 328]),
      (''Order Item Total'', [Num 50, Num 30]),
      (''Order Profit Per Order'', [Num 91, Num (- 249)]),
      (''Order Region'', [Num 0, Num 1]),
      (''Order State'', [Num 0, Num 1]),
      (''Product Card Id'', [Num 1360, Num 1360]),
      (''Product Category Id'', [Num 73, Num 73]),
      (''Product Name'', [Num 0, Num 0]),
      (''Product Price'', [Num 328, Num 328]),
      (''Shipping Mode'', [Num 1, Num 0]),
      (''Customer Full Name'', [Num 1, Num 0]),
      (''order_year'', [Num 2018, NaN]),
      (''order_month'', [Num 1, NaN]),
      (''order_week_day'', [Num 0, Num 1]),
      (''order_hour'', [Num 22, NaN]),
      (''TotalPrice'', [Num 100, Num 30]),
      (''fraud'', [Num 1, Num 0]),
      (''late_delivery'', [Num 1, Num 0])]\<rparr>"

section \<open>Properties of the preprocessing\<close>

text \<open>
  \<open>derived_column\<close> describes the table after line 61: what \<open>df_get\<close> answers for each
  column name, in terms of the input table.
\<close>

definition derived_column ::
  "dataframe \<Rightarrow> cell list \<Rightarrow> cell list \<Rightarrow> datetime list \<Rightarrow> cell list \<Rightarrow> cell list \<Rightarrow> cell list \<Rightarrow>
   string \<Rightarrow> error + cell list" where
  "derived_column dataset full zipcode dti price status delivery c =
     (if c = ''late_delivery'' then Inr (where_eq ''Late delivery'' delivery)
      else if c = ''fraud'' then Inr (where_eq ''SUSPECTED_FRAUD'' status)
      else if c = ''order date (DateOrders)'' then Inr (map dt_cell dti)
      else if c = ''TotalPrice'' then Inr price
      else if c = ''order_hour'' then Inr (map (dt_field ts_hour) dti)
      else if c = ''order_week_day'' then Inr (map (dt_field ts_weekday) dti)
      else if c = ''order_month'' then Inr (map (dt_field ts_month) dti)
      else if c = ''order_year'' then Inr (map (dt_field ts_year) dti)
      else if c = ''Customer Zipcode'' then Inr (fillna (Num 0) zipcode)
      else if c \<in> set dropped_columns then Inl KeyError
      else if c = ''Customer Full Name'' then Inr full
      else df_get dataset c)"


section \<open>Example inputs of the split\<close>

text \<open>
  A generator for the examples: the state counts the calls, a seed is its own state, and
  the permutation of \<open>n\<close> positions is their reversal.
\<close>

definition example_rng :: "nat np_random" where
  "example_rng = \<lparr>seed_state = (\<lambda>s. s), permutation = (\<lambda>g n. (rev [0..<n], Suc g))\<rparr>"

text \<open>\<^verbatim>\<open>df.head(n)\<close>: the first \<open>n\<close> rows.\<close>

definition df_head :: "nat \<Rightarrow> dataframe \<Rightarrow> dataframe" where
  "df_head n df = \<lparr>index = take n (index df), cols = map (\<lambda>kv. (fst kv, take n (snd kv))) (cols df)\<rparr>"

definition example_small :: dataframe where
  "example_small = \<lparr>index = [0, 1, 2, 3, 4], cols =
     [(''TotalPrice'', [Num 100, Num 30, Num 20, Num 75, Num 10]),
      (''fraud'', [Num 1, Num 0, Num 0, Num 0, Num 1]),
      (''late_delivery'', [Num 1, Num 0, Num 1, Num 1, Num 0])]\<rparr>"

text \<open>
  The permutation that \<^verbatim>\<open>split_data\<close> draws for a table of \<open>n\<close> rows: the one of a fresh
  generator with the seed 42.
\<close>

definition seeded_permutation :: "'g np_random \<Rightarrow> nat \<Rightarrow> nat list" where
  "seeded_permutation R n = fst (permutation R (seed_state R 42) n)"

text \<open>The table that the preprocessing returns for the first row of the example table.\<close>

definition example_single :: dataframe where
  "example_single = \<lparr>index = [0], cols =
     [(''Type'', [Num 0]),
      (''Days for shipping (real)'', [Num 3]),
      (''Days for shipment (scheduled)'', [Num 4]),
      (''Benefit per order'', [Num 91]),
      (''Sales per customer'', [Num 314]),
      (''Category Id'', [Num 73]),
      (''Category Name'', [Num 0]),
      (''Customer City'', [Num 0]),
      (''Customer Country'', [Num 0]),
      (''Customer Id'', [Num 20755]),
      (''Customer Segment'', [Num 0]),
      (''Customer State'', [Num 0]),
      (''Customer Zipcode'', [Num 725]),
      (''Department Id'', [Num 2]),
      (''Department Name'', [Num 0]),
      (''Market'', [Num 0]),
      (''Order City'', [Num 0]),
      (''Order Country'', [Num 0]),
      (''Order Customer Id'', [Num 20755]),
      (''Order Id'', [Num 77202]),
      (''Order Item Cardprod Id'', [Num 1360]),
      (''Order Item Discount'', [Num 13]),
      (''Order Item Discount Rate'', [Num 0]),
      (''Order Item Id'', [Num 180517]),
      (''Order Item Product Price'', [Num 328]),
      (''Order Item Profit Ratio'', [Num 0]),
      (''Order Item Quantity'', [Num 2]),
      (''Sales'', [Num 328]),
      (''Order Item Total'', [Num 50]),
      (''Order Profit Per Order'', [Num 91]),
      (''Order Region'', [Num 0]),
      (''Order State'', [Num 0]),
      (''Product Card Id'', [Num 1360]),
      (''Product Category Id'', [Num 73]),
      (''Product Name'', [Num 0]),
      (''Product Price'', [Num 328]),
      (''Shipping Mode'', [Num 0]),
      (''Customer Full Name'', [Num 0]),
      (''order_year'', [Num 2018]),
      (''order_month'', [Num 1]),
      (''order_week_day'', [Num 0]),
      (''order_hour'', [Num 22]),
      (''TotalPrice'', [Num 100]),
      (''fraud'', [Num 1]),
      (''late_delivery'', [Num 1])]\<rparr>"

text \<open>The two splits of the small table, as the example generator gives them.\<close>

definition example_split_fraud :: "dataframe \<times> dataframe \<times> series \<times> series" where
  "example_split_fraud =
     (\<lparr>index = [3, 2, 1, 0],
       cols = [(''TotalPrice'', [Num 75, Num 20, Num 30, Num 100]),
               (''late_delivery'', [Num 1, Num 1, Num 0, Num 1])]\<rparr>,
      \<lparr>index = [4], cols = [(''TotalPrice'', [Num 10]), (''late_delivery'', [Num 0])]\<rparr>,
      \<lparr>sindex = [3, 2, 1, 0], svalues = [Num 0, Num 0, Num 0, Num 1]\<rparr>,
      \<lparr>sindex = [4], svalues = [Num 1]\<rparr>)"

definition example_split_late :: "dataframe \<times> dataframe \<times> series \<times> series" where
  "example_split_late =
     (\<lparr>index = [3, 2, 1, 0],
       cols = [(''TotalPrice'', [Num 75, Num 20, Num 30, Num 100]),
               (''fraud'', [Num 0, Num 0, Num 0, Num 1])]\<rparr>,
      \<lparr>index = [4], cols = [(''TotalPrice'', [Num 10]), (''fraud'', [Num 1])]\<rparr>,
      \<lparr>sindex = [3, 2, 1, 0], svalues = [Num 1, Num 1, Num 0, Num 1]\<rparr>,
      \<lparr>sindex = [4], svalues = [Num 0]\<rparr>)"

section \<open>Statistics of a column\<close>




section \<open>Example inputs of the scaler and of the model loop\<close>




text \<open>
  The events of one model in the loop, and of the loop over a list of models when nothing
  raises: \<^verbatim>\<open>fit\<close> and \<^verbatim>\<open>predict\<close> for the fraud split on a fresh object, then \<^verbatim>\<open>fit\<close> and
  \<^verbatim>\<open>predict\<close> for the late-delivery split on the same, fitted object.
\<close>

definition model_events :: "nat \<Rightarrow> event list" where
  "model_events a =
     [Fit a ''fraud'' False None, Predict a ''fraud'' None,
      Fit a ''late_delivery'' True None, Predict a ''late_delivery'' None]"

definition roster_events :: "nat list \<Rightarrow> event list" where
  "roster_events ms = concat (map model_events ms)"

fun is_write :: "event \<Rightarrow> bool" where
  "is_write (ToCsv _ _) = True"
| "is_write _ = False"

fun event_object :: "event \<Rightarrow> nat option" where
  "event_object (Fit a _ _ _) = Some a"
| "event_object (Predict a _ _) = Some a"
| "event_object (ToCsv _ _) = None"

text \<open>What a call raised, and the event of a call that raises \<open>e\<close>.\<close>

fun raised :: "event \<Rightarrow> error option" where
  "raised (Fit _ _ _ r) = r"
| "raised (Predict _ _ r) = r"
| "raised (ToCsv _ _) = None"

fun raise_at :: "error \<Rightarrow> event \<Rightarrow> event" where
  "raise_at e (Fit a t b _) = Fit a t b (Some e)"
| "raise_at e (Predict a t _) = Predict a t (Some e)"
| "raise_at e (ToCsv f rows) = ToCsv f rows"

text \<open>
  \<open>scored S k p X_test y_test m\<close>: the metrics \<open>m\<close> are those of the predictions that the
  classifier \<open>k\<close> makes for \<open>X_test\<close> with the learned parameters \<open>p\<close>.
\<close>

definition scored ::
  "('g, 'p) sklearn \<Rightarrow> classifier \<Rightarrow> 'p \<Rightarrow> matrix \<Rightarrow> series \<Rightarrow> real \<times> real \<times> real \<Rightarrow> bool" where
  "scored S k p X_test y_test m =
     (case predict S k p X_test of
        Inl e \<Rightarrow> False
      | Inr y_pred \<Rightarrow>
          accuracy_score S (svalues y_test) y_pred = Inr (fst m) \<and>
          recall_score S (svalues y_test) y_pred = Inr (fst (snd m)) \<and>
          f1_score S (svalues y_test) y_pred = Inr (snd (snd m)) \<and>
          (case confusion_matrix S (svalues y_test) y_pred of Inl e \<Rightarrow> False | Inr cm \<Rightarrow> True))"

definition fraud_metrics :: "result_row \<Rightarrow> real \<times> real \<times> real" where
  "fraud_metrics row =
     (Fraud_Detection_Accuracy row, Fraud_Detection_Recall row, Fraud_Detection_F1 row)"

definition late_metrics :: "result_row \<Rightarrow> real \<times> real \<times> real" where
  "late_metrics row =
     (Late_Delivery_Accuracy row, Late_Delivery_Recall row, Late_Delivery_F1 row)"

text \<open>
  A library for the examples. Every classifier learns the labels it is given and predicts
  the first of them for every row; \<^verbatim>\<open>fit\<close> raises when the matrix is empty or has another
  number of rows than there are labels. The metrics count the pairs of a true and a
  predicted label, with 1 as the positive label and 0 for a quotient whose denominator is 0.
  In the second library the \<^verbatim>\<open>fit\<close> of LinearDiscriminantAnalysis raises, in the third the
  \<^verbatim>\<open>predict\<close> of GaussianNB.
\<close>

definition count_labels :: "cell \<Rightarrow> cell \<Rightarrow> cell list \<Rightarrow> cell list \<Rightarrow> nat" where
  "count_labels t p y_true y_pred = length (filter (\<lambda>tp. tp = (t, p)) (zip y_true y_pred))"

definition ratio :: "nat \<Rightarrow> nat \<Rightarrow> real" where
  "ratio a b = (if b = 0 then 0 else real a / real b)"

definition example_sklearn :: "(nat, cell list) sklearn" where
  "example_sklearn =
     \<lparr>fit = (\<lambda>k X y g. if X = [] \<or> length X \<noteq> length y then (Inl ValueError, g)
                        else (Inr y, Suc g)),
      predict = (\<lambda>k p X. case p of [] \<Rightarrow> Inl ValueError | l # _ \<Rightarrow> Inr (map (\<lambda>r. l) X)),
      accuracy_score = (\<lambda>y_true y_pred.
        Inr (ratio (length (filter (\<lambda>tp. fst tp = snd tp) (zip y_true y_pred))) (length y_true))),
      recall_score = (\<lambda>y_true y_pred.
        Inr (ratio (count_labels (Num 1) (Num 1) y_true y_pred)
               (count_labels (Num 1) (Num 1) y_true y_pred +
                count_labels (Num 1) (Num 0) y_true y_pred))),
      f1_score = (\<lambda>y_true y_pred.
        Inr (ratio (2 * count_labels (Num 1) (Num 1) y_true y_pred)
               (2 * count_labels (Num 1) (Num 1) y_true y_pred +
                count_labels (Num 0) (Num 1) y_true y_pred +
                count_labels (Num 1) (Num 0) y_true y_pred))),
      confusion_matrix = (\<lambda>y_true y_pred.
        Inr [[count_labels (Num 0) (Num 0) y_true y_pred,
              count_labels (Num 0) (Num 1) y_true y_pred],
             [count_labels (Num 1) (Num 0) y_true y_pred,
              count_labels (Num 1) (Num 1) y_true y_pred]])\<rparr>"

definition failing_sklearn :: "(nat, cell list) sklearn" where
  "failing_sklearn =
     example_sklearn\<lparr>fit := (\<lambda>k X y g. if k = LinearDiscriminantAnalysis
                                        then (Inl (LibError 2), g)
                                        else fit example_sklearn k X y g)\<rparr>"

definition failing_predict_sklearn :: "(nat, cell list) sklearn" where
  "failing_predict_sklearn =
     example_sklearn\<lparr>predict := (\<lambda>k p X. if k = GaussianNB then Inl (LibError 3)
                                          else predict example_sklearn k p X)\<rparr>"

definition example_world :: "(nat, cell list) world" where
  "example_world = \<lparr>objects = [], trace = [], rng = 0\<rparr>"

text \<open>
  The two splits of a table of eight rows, after scaling: six train rows and two test rows,
  with the same row labels in both splits and both labels present among the train rows.
\<close>

definition example_X_train_fraud :: matrix where
  "example_X_train_fraud =
     [[Some (- 1), Some 1], [Some 1, Some 0], [Some 0, Some 1],
      [Some 2, Some 1], [Some (- 2), Some 0], [Some 0, Some 1]]"

definition example_X_test_fraud :: matrix where
  "example_X_test_fraud = [[Some 1, Some 1], [Some (- 1), Some 0]]"

definition example_y_train :: series where
  "example_y_train =
     \<lparr>sindex = [1, 5, 0, 7, 2, 4], svalues = [Num 0, Num 0, Num 0, Num 1, Num 0, Num 0]\<rparr>"

definition example_y_test :: series where
  "example_y_test = \<lparr>sindex = [3, 6], svalues = [Num 0, Num 1]\<rparr>"

definition example_X_train_late :: matrix where
  "example_X_train_late =
     [[Some (- 1), Some 0], [Some 1, Some 0], [Some 0, Some 0],
      [Some 2, Some 1], [Some (- 2), Some 0], [Some 0, Some 0]]"

definition example_X_test_late :: matrix where
  "example_X_test_late = [[Some 1, Some 0], [Some (- 1), Some 1]]"

definition example_y_train_late :: series where
  "example_y_train_late =
     \<lparr>sindex = [1, 5, 0, 7, 2, 4], svalues = [Num 1, Num 0, Num 1, Num 1, Num 0, Num 1]\<rparr>"

definition example_y_test_late :: series where
  "example_y_test_late = \<lparr>sindex = [3, 6], svalues = [Num 1, Num 0]\<rparr>"

text \<open>
  The results of the example library on these splits: for the fraud split every model
  predicts 0, the first fraud label it was given, and for the late-delivery split 1, the
  first late-delivery label.
\<close>

definition example_results :: "result_row list" where
  "example_results =
     map (\<lambda>k. \<lparr>Model = class_name k,
               Fraud_Detection_Accuracy = 1 / 2, Fraud_Detection_Recall = 0,
               Fraud_Detection_F1 = 0,
               Late_Delivery_Accuracy = 1 / 2, Late_Delivery_Recall = 1,
               Late_Delivery_F1 = 2 / 3\<rparr>) roster"

lemma ebind_Inr [simp]: "ebind (Inr x) f = f x"
  by (simp add: ebind_def)

lemma ebind_Inl [simp]: "ebind (Inl e) f = Inl e"
  by (simp add: ebind_def)

lemma ebind_Inr_iff: "ebind m f = Inr y \<longleftrightarrow> (\<exists>x. m = Inr x \<and> f x = Inr y)"
  by (cases m) (simp_all add: ebind_def)

lemma ebindE:
  assumes "ebind m f = Inr y"
  obtains x where "m = Inr x" and "f x = Inr y"
  using assms by (auto simp: ebind_Inr_iff)

lemma map_of_filter_fst:
  "map_of (filter (\<lambda>kv. P (fst kv)) al) c = (if P c then map_of al c else None)"
  by (induction al) auto

lemma df_get_set:
  "df_set df c v = Inr df' \<Longrightarrow> df_get df' c' = (if c' = c then Inr v else df_get df c')"
  by (auto simp: df_set_def df_get_def update_conv' split: if_splits)

lemma df_set_index: "df_set df c v = Inr df' \<Longrightarrow> index df' = index df"
  by (auto simp: df_set_def split: if_splits)

lemma df_set_length: "df_set df c v = Inr df' \<Longrightarrow> length v = nrows df"
  by (auto simp: df_set_def split: if_splits)

lemma df_get_drop:
  "df_drop df cs = Inr df' \<Longrightarrow> df_get df' c = (if c \<in> set cs then Inl KeyError else df_get df c)"
  by (auto simp: df_drop_def df_get_def map_of_filter_fst[where P="\<lambda>k. k \<notin> set cs"] split: if_splits)

lemma df_drop_index: "df_drop df cs = Inr df' \<Longrightarrow> index df' = index df"
  by (auto simp: df_drop_def split: if_splits)

lemma nrows_cong: "index df' = index df \<Longrightarrow> nrows df' = nrows df"
  by (simp add: nrows_def)


lemma zip_with_length:
  "zip_with f xs ys = Inr zs \<Longrightarrow> length zs = length xs \<and> length ys = length xs"
  by (induction f xs ys arbitrary: zs rule: zip_with.induct) (auto simp: ebind_Inr_iff)

lemma emap_length: "emap f xs = Inr ys \<Longrightarrow> length ys = length xs"
  by (induction xs arbitrary: ys) (auto simp: ebind_Inr_iff)

lemma emap_nth: "emap f xs = Inr ys \<Longrightarrow> i < length xs \<Longrightarrow> f (xs ! i) = Inr (ys ! i)"
  by (induction xs arbitrary: ys i) (auto simp: ebind_Inr_iff nth_Cons split: nat.splits)

lemma derive_columns_result:
  assumes "derive_columns L dataset = Inr data"
  shows "\<exists>full zipcode od dti price status delivery.
           df_get dataset ''Customer Zipcode'' = Inr zipcode \<and>
           df_get dataset ''order date (DateOrders)'' = Inr od \<and>
           DatetimeIndex L od = Inr dti \<and>
           df_get dataset ''Order Status'' = Inr status \<and>
           df_get dataset ''Delivery Status'' = Inr delivery \<and>
           length zipcode = nrows dataset \<and> length od = nrows dataset \<and>
           length status = nrows dataset \<and> length delivery = nrows dataset \<and>
           index data = index dataset \<and>
           (\<forall>c. df_get data c = derived_column dataset full zipcode dti price status delivery c)"
proof -
  from assms obtain fname lname full dataset1 data0 zipcode data1 od dti data2 data3 data4 data5
      qty tot price data6 data7 status data8 delivery
    where s1: "df_set dataset ''Customer Full Name'' full = Inr dataset1"
      and d0: "df_drop dataset1 dropped_columns = Inr data0"
      and g0: "df_get data0 ''Customer Zipcode'' = Inr zipcode"
      and s2: "df_set data0 ''Customer Zipcode'' (fillna (Num 0) zipcode) = Inr data1"
      and g3: "df_get data1 ''order date (DateOrders)'' = Inr od"
      and dt: "DatetimeIndex L od = Inr dti"
      and s3: "df_set data1 ''order_year'' (map (dt_field ts_year) dti) = Inr data2"
      and s4: "df_set data2 ''order_month'' (map (dt_field ts_month) dti) = Inr data3"
      and s5: "df_set data3 ''order_week_day'' (map (dt_field ts_weekday) dti) = Inr data4"
      and s6: "df_set data4 ''order_hour'' (map (dt_field ts_hour) dti) = Inr data5"
      and s7: "df_set data5 ''TotalPrice'' price = Inr data6"
      and s8: "df_set data6 ''order date (DateOrders)'' (map dt_cell dti) = Inr data7"
      and g1: "df_get data7 ''Order Status'' = Inr status"
      and s9: "df_set data7 ''fraud'' (where_eq ''SUSPECTED_FRAUD'' status) = Inr data8"
      and g2: "df_get data8 ''Delivery Status'' = Inr delivery"
      and s10: "df_set data8 ''late_delivery'' (where_eq ''Late delivery'' delivery) = Inr data"
    unfolding derive_columns_def by (elim ebindE) blast
  note sets = df_get_set[OF s10] df_get_set[OF s9] df_get_set[OF s8] df_get_set[OF s7]
    df_get_set[OF s6] df_get_set[OF s5] df_get_set[OF s4] df_get_set[OF s3] df_get_set[OF s2]
    df_get_drop[OF d0] df_get_set[OF s1]
  have ix: "index data = index dataset"
    using df_set_index[OF s10] df_set_index[OF s9] df_set_index[OF s8] df_set_index[OF s7]
      df_set_index[OF s6] df_set_index[OF s5] df_set_index[OF s4] df_set_index[OF s3]
      df_set_index[OF s2] df_drop_index[OF d0] df_set_index[OF s1] by simp
  have n1: "nrows data1 = nrows dataset" "nrows data7 = nrows dataset" "nrows data8 = nrows dataset"
       "nrows data0 = nrows dataset"
    using df_set_index[OF s8] df_set_index[OF s7] df_set_index[OF s9]
      df_set_index[OF s6] df_set_index[OF s5] df_set_index[OF s4] df_set_index[OF s3]
      df_set_index[OF s2] df_drop_index[OF d0] df_set_index[OF s1] by (simp_all add: nrows_def)
  have zipcode: "df_get dataset ''Customer Zipcode'' = Inr zipcode"
    using g0 by (simp add: sets dropped_columns_def)
  have od: "df_get dataset ''order date (DateOrders)'' = Inr od"
    using g3 by (simp add: sets dropped_columns_def)
  have st: "df_get dataset ''Order Status'' = Inr status"
    using g1 by (simp add: sets dropped_columns_def)
  have dl: "df_get dataset ''Delivery Status'' = Inr delivery"
    using g2 by (simp add: sets dropped_columns_def)
  have lz: "length zipcode = nrows dataset"
    using df_set_length[OF s2] n1 by (simp add: fillna_def)
  have lod: "length od = nrows dataset"
    using df_set_length[OF s3] emap_length[OF dt[unfolded DatetimeIndex_def]] n1 by simp
  have lst: "length status = nrows dataset"
    using df_set_length[OF s9] n1 by (simp add: where_eq_def)
  have ldl: "length delivery = nrows dataset"
    using df_set_length[OF s10] n1 by (simp add: where_eq_def)
  have all: "df_get data c = derived_column dataset full zipcode dti price status delivery c" for c
    by (simp add: sets derived_column_def)
  from zipcode od dt st dl lz lod lst ldl ix all show ?thesis by blast
qed

lemma encode_columns_other:
  "encode_columns le cs data = Inr (le', data') \<Longrightarrow> c \<notin> set cs \<Longrightarrow>
   df_get data' c = df_get data c"
proof (induction cs arbitrary: le data)
  case Nil
  then show ?case by simp
next
  case (Cons col rest)
  from Cons.prems(1) obtain y le1 codes data1
    where s: "df_set data col codes = Inr data1"
      and r: "encode_columns le1 rest data1 = Inr (le', data')"
    by (auto simp: ebind_Inr_iff)
  from Cons.prems(2) have "c \<noteq> col" and "c \<notin> set rest" by auto
  with Cons.IH[OF r] df_get_set[OF s] show ?case by simp
qed

lemma encode_columns_index:
  "encode_columns le cs data = Inr (le', data') \<Longrightarrow> index data' = index data"
proof (induction cs arbitrary: le data)
  case Nil
  then show ?case by simp
next
  case (Cons col rest)
  from Cons.prems(1) obtain y le1 codes data1
    where s: "df_set data col codes = Inr data1"
      and r: "encode_columns le1 rest data1 = Inr (le', data')"
    by (auto simp: ebind_Inr_iff)
  with Cons.IH[OF r] df_set_index[OF s] show ?case by simp
qed

lemma encode_columns_column:
  "encode_columns le cs data = Inr (le', data') \<Longrightarrow> distinct cs \<Longrightarrow> c \<in> set cs \<Longrightarrow>
   \<exists>orig classes codes.
     df_get data c = Inr orig \<and> unique_sorted orig = Inr classes \<and>
     le_transform (Some classes) orig = Inr codes \<and> df_get data' c = Inr codes"
proof (induction cs arbitrary: le data)
  case Nil
  then show ?case by simp
next
  case (Cons col rest)
  from Cons.prems(1) obtain y le1 codes data1
    where g: "df_get data col = Inr y"
      and f: "le_fit_transform le y = Inr (le1, codes)"
      and s: "df_set data col codes = Inr data1"
      and r: "encode_columns le1 rest data1 = Inr (le', data')"
    by (auto simp: ebind_Inr_iff)
  from Cons.prems(2) have d: "col \<notin> set rest" "distinct rest" by auto
  show ?case
  proof (cases "c = col")
    case True
    from f obtain classes where u: "unique_sorted y = Inr classes"
      and t: "le_transform (Some classes) y = Inr codes"
      by (auto simp: le_fit_transform_def le_fit_def ebind_Inr_iff)
    have "df_get data' c = Inr codes"
      using encode_columns_other[OF r] d(1) df_get_set[OF s] True by simp
    with g u t True show ?thesis by blast
  next
    case False
    with Cons.prems(3) have "c \<in> set rest" by simp
    from Cons.IH[OF r d(2) this] df_get_set[OF s] False show ?thesis by simp
  qed
qed

lemma preprocess_data_stages:
  assumes "preprocess_data L dataset = Inr data"
  obtains data9 data10 le where "derive_columns L dataset = Inr data9"
    and "df_drop data9 redundant_columns = Inr data10"
    and "encode_columns None categorical_columns data10 = Inr (le, data)"
  using assms unfolding preprocess_data_def by (auto simp: ebind_Inr_iff)

lemma preprocess_data_example: "preprocess_data example_lib example_dataset = Inr example_processed"
  by code_simp

lemma where_eq_nth:
  "i < length xs \<Longrightarrow> where_eq lit xs ! i = (if xs ! i = Str lit then Num 1 else Num 0)"
  by (simp add: where_eq_def)

text \<open>
  C1. For every row, the derived fraud label is 1 exactly when the Order Status of the row is
  the string \<^verbatim>\<open>SUSPECTED_FRAUD\<close>, and 0 for every other value; a null status gives 0.
\<close>

theorem fraud_label_iff_suspected_fraud:
  assumes "preprocess_data L dataset = Inr data"
  shows "\<exists>status fraud.
           df_get dataset ''Order Status'' = Inr status \<and>
           df_get data ''fraud'' = Inr fraud \<and>
           length status = nrows dataset \<and> length fraud = nrows dataset \<and>
           (\<forall>i<nrows dataset.
              (fraud ! i = Num 1 \<longleftrightarrow> status ! i = Str ''SUSPECTED_FRAUD'') \<and>
              (fraud ! i = Num 0 \<longleftrightarrow> status ! i \<noteq> Str ''SUSPECTED_FRAUD'') \<and>
              (status ! i = NaN \<longrightarrow> fraud ! i = Num 0))"
proof -
  from assms obtain data9 data10 le where d: "derive_columns L dataset = Inr data9"
    and r: "df_drop data9 redundant_columns = Inr data10"
    and e: "encode_columns None categorical_columns data10 = Inr (le, data)"
    by (rule preprocess_data_stages)
  from derive_columns_result[OF d] obtain full zipcode dti price status delivery
    where st: "df_get dataset ''Order Status'' = Inr status"
      and len: "length status = nrows dataset"
      and all: "\<And>c. df_get data9 c = derived_column dataset full zipcode dti price status delivery c"
    by blast
  have "df_get data ''fraud'' = df_get data10 ''fraud''"
    by (rule encode_columns_other[OF e]) (simp add: categorical_columns_def)
  also have "\<dots> = df_get data9 ''fraud''"
    by (simp add: df_get_drop[OF r] redundant_columns_def)
  also have "\<dots> = Inr (where_eq ''SUSPECTED_FRAUD'' status)"
    by (simp add: all derived_column_def)
  finally have fr: "df_get data ''fraud'' = Inr (where_eq ''SUSPECTED_FRAUD'' status)" .
  have "length (where_eq ''SUSPECTED_FRAUD'' status) = nrows dataset"
    using len by (simp add: where_eq_def)
  moreover have "\<forall>i<nrows dataset.
      (where_eq ''SUSPECTED_FRAUD'' status ! i = Num 1 \<longleftrightarrow> status ! i = Str ''SUSPECTED_FRAUD'') \<and>
      (where_eq ''SUSPECTED_FRAUD'' status ! i = Num 0 \<longleftrightarrow> status ! i \<noteq> Str ''SUSPECTED_FRAUD'') \<and>
      (status ! i = NaN \<longrightarrow> where_eq ''SUSPECTED_FRAUD'' status ! i = Num 0)"
    using len by (simp add: where_eq_nth)
  ultimately show ?thesis using st fr len by blast
qed

theorem fraud_label_iff_suspected_fraud_witness:
  "preprocess_data example_lib example_dataset = Inr example_processed \<and>
   df_get example_dataset ''Order Status'' = Inr [Str ''SUSPECTED_FRAUD'', NaN] \<and>
   df_get example_processed ''fraud'' = Inr [Num 1, Num 0]"
proof -
  have h: "preprocess_data example_lib example_dataset = Inr example_processed"
    by (rule preprocess_data_example)
  have s: "df_get example_dataset ''Order Status'' = Inr [Str ''SUSPECTED_FRAUD'', NaN]"
    by code_simp
  have n: "nrows example_dataset = 2"
    by code_simp
  from fraud_label_iff_suspected_fraud[OF h] s n obtain fraud
    where f: "df_get example_processed ''fraud'' = Inr fraud" and l: "length fraud = 2"
      and v: "\<forall>i<2. fraud ! i = Num 1 \<longleftrightarrow> [Str ''SUSPECTED_FRAUD'', NaN] ! i = Str ''SUSPECTED_FRAUD''"
             "\<forall>i<2. fraud ! i = Num 0 \<longleftrightarrow> [Str ''SUSPECTED_FRAUD'', NaN] ! i \<noteq> Str ''SUSPECTED_FRAUD''"
    by auto
  from v(1) have "fraud ! 0 = Num 1" by simp
  moreover from v(2) have "fraud ! 1 = Num 0" by simp
  ultimately have "fraud = [Num 1, Num 0]"
    using l by (cases fraud; cases "tl fraud") auto
  with h s f show ?thesis by simp
qed

text \<open>
  C2. For every row, the derived late-delivery label is 1 exactly when the Delivery Status of
  the row is the string \<^verbatim>\<open>Late delivery\<close>, and 0 otherwise.
\<close>

theorem late_delivery_label_iff_late:
  assumes "preprocess_data L dataset = Inr data"
  shows "\<exists>delivery late.
           df_get dataset ''Delivery Status'' = Inr delivery \<and>
           df_get data ''late_delivery'' = Inr late \<and>
           length delivery = nrows dataset \<and> length late = nrows dataset \<and>
           (\<forall>i<nrows dataset.
              (late ! i = Num 1 \<longleftrightarrow> delivery ! i = Str ''Late delivery'') \<and>
              (late ! i = Num 0 \<longleftrightarrow> delivery ! i \<noteq> Str ''Late delivery''))"
proof -
  from assms obtain data9 data10 le where d: "derive_columns L dataset = Inr data9"
    and r: "df_drop data9 redundant_columns = Inr data10"
    and e: "encode_columns None categorical_columns data10 = Inr (le, data)"
    by (rule preprocess_data_stages)
  from derive_columns_result[OF d] obtain full zipcode dti price status delivery
    where dl: "df_get dataset ''Delivery Status'' = Inr delivery"
      and len: "length delivery = nrows dataset"
      and all: "\<And>c. df_get data9 c = derived_column dataset full zipcode dti price status delivery c"
    by blast
  have "df_get data ''late_delivery'' = df_get data10 ''late_delivery''"
    by (rule encode_columns_other[OF e]) (simp add: categorical_columns_def)
  also have "\<dots> = df_get data9 ''late_delivery''"
    by (simp add: df_get_drop[OF r] redundant_columns_def)
  also have "\<dots> = Inr (where_eq ''Late delivery'' delivery)"
    by (simp add: all derived_column_def)
  finally have lt: "df_get data ''late_delivery'' = Inr (where_eq ''Late delivery'' delivery)" .
  have "length (where_eq ''Late delivery'' delivery) = nrows dataset"
    using len by (simp add: where_eq_def)
  moreover have "\<forall>i<nrows dataset.
      (where_eq ''Late delivery'' delivery ! i = Num 1 \<longleftrightarrow> delivery ! i = Str ''Late delivery'') \<and>
      (where_eq ''Late delivery'' delivery ! i = Num 0 \<longleftrightarrow> delivery ! i \<noteq> Str ''Late delivery'')"
    using len by (simp add: where_eq_nth)
  ultimately show ?thesis using dl lt len by blast
qed

theorem late_delivery_label_iff_late_witness:
  "preprocess_data example_lib example_dataset = Inr example_processed \<and>
   df_get example_dataset ''Delivery Status'' = Inr [Str ''Late delivery'', Str ''Shipping on time''] \<and>
   df_get example_processed ''late_delivery'' = Inr [Num 1, Num 0]"
proof -
  have h: "preprocess_data example_lib example_dataset = Inr example_processed"
    by (rule preprocess_data_example)
  have s: "df_get example_dataset ''Delivery Status'' =
             Inr [Str ''Late delivery'', Str ''Shipping on time'']"
    by code_simp
  have n: "nrows example_dataset = 2"
    by code_simp
  from late_delivery_label_iff_late[OF h] s n obtain late
    where f: "df_get example_processed ''late_delivery'' = Inr late" and l: "length late = 2"
      and v: "\<forall>i<2. late ! i = Num 1 \<longleftrightarrow>
                 [Str ''Late delivery'', Str ''Shipping on time''] ! i = Str ''Late delivery''"
             "\<forall>i<2. late ! i = Num 0 \<longleftrightarrow>
                 [Str ''Late delivery'', Str ''Shipping on time''] ! i \<noteq> Str ''Late delivery''"
    by auto
  from v(1) have "late ! 0 = Num 1" by simp
  moreover from v(2) have "late ! 1 = Num 0" by simp
  ultimately have "late = [Num 1, Num 0]"
    using l by (cases late; cases "tl late") auto
  with h s f show ?thesis by simp
qed

lemma emap_set:
  "emap f xs = Inr ys \<Longrightarrow> y \<in> set ys \<Longrightarrow> \<exists>x\<in>set xs. f x = Inr y"
  by (induction xs arbitrary: ys) (auto simp: ebind_Inr_iff)

lemma le_transform_no_NaN: "le_transform (Some classes) y = Inr codes \<Longrightarrow> NaN \<notin> set codes"
  by (auto simp: le_transform_def dest!: emap_set split: option.splits)

lemma le_transform_length: "le_transform (Some classes) y = Inr codes \<Longrightarrow> length codes = length y"
  by (simp add: le_transform_def emap_length)

lemma fillna_no_NaN: "v \<noteq> NaN \<Longrightarrow> NaN \<notin> set (fillna v xs)"
  by (auto simp: fillna_def)

lemma where_eq_no_NaN: "NaN \<notin> set (where_eq lit xs)"
  by (auto simp: where_eq_def)

lemma dt_field_NaN: "dt_field f d = NaN \<longleftrightarrow> d = NaT"
  by (simp add: dt_field_def split: datetime.splits)

lemma DatetimeIndex_nth:
  "DatetimeIndex L od = Inr dti \<Longrightarrow> i < length od \<Longrightarrow> to_datetime1 L (od ! i) = Inr (dti ! i)"
  by (simp add: DatetimeIndex_def emap_nth)

lemma DatetimeIndex_length: "DatetimeIndex L od = Inr dti \<Longrightarrow> length dti = length od"
  by (simp add: DatetimeIndex_def emap_length)

lemma distinct_categorical_columns: "distinct categorical_columns"
  by (simp add: categorical_columns_def)

lemma preprocess_data_untouched:
  assumes "derive_columns L dataset = Inr data9"
    and "df_drop data9 redundant_columns = Inr data10"
    and "encode_columns None categorical_columns data10 = Inr (le, data)"
    and "c \<notin> set categorical_columns" and "c \<notin> set redundant_columns"
  shows "df_get data c = df_get data9 c"
  using encode_columns_other[OF assms(3,4)] df_get_drop[OF assms(2), of c] assms(5) by simp

text \<open>
  C6, as the code has it. The returned table has no missing value in the zipcode column, in
  the label columns and in \<^verbatim>\<open>order_week_day\<close> (which holds the codes of the encoder).
  \<^verbatim>\<open>order_year\<close>, \<^verbatim>\<open>order_month\<close> and \<^verbatim>\<open>order_hour\<close> are missing in exactly the rows whose
  order date is \<^verbatim>\<open>NaT\<close> after parsing, which a null order date is.
\<close>

theorem preprocess_missing_only_where_order_date_missing:
  assumes "preprocess_data L dataset = Inr data"
  shows "\<exists>zipcode week_day fraud late od year month hour.
           df_get data ''Customer Zipcode'' = Inr zipcode \<and> NaN \<notin> set zipcode \<and>
           df_get data ''order_week_day'' = Inr week_day \<and> NaN \<notin> set week_day \<and>
           df_get data ''fraud'' = Inr fraud \<and> NaN \<notin> set fraud \<and>
           df_get data ''late_delivery'' = Inr late \<and> NaN \<notin> set late \<and>
           df_get dataset ''order date (DateOrders)'' = Inr od \<and>
           df_get data ''order_year'' = Inr year \<and>
           df_get data ''order_month'' = Inr month \<and>
           df_get data ''order_hour'' = Inr hour \<and>
           length od = nrows dataset \<and> length year = nrows dataset \<and>
           length month = nrows dataset \<and> length hour = nrows dataset \<and>
           (\<forall>i<nrows dataset.
              (year ! i = NaN \<longleftrightarrow> to_datetime1 L (od ! i) = Inr NaT) \<and>
              (month ! i = NaN \<longleftrightarrow> to_datetime1 L (od ! i) = Inr NaT) \<and>
              (hour ! i = NaN \<longleftrightarrow> to_datetime1 L (od ! i) = Inr NaT) \<and>
              (od ! i = NaN \<longrightarrow> year ! i = NaN \<and> month ! i = NaN \<and> hour ! i = NaN))"
proof -
  from assms obtain data9 data10 le where d: "derive_columns L dataset = Inr data9"
    and r: "df_drop data9 redundant_columns = Inr data10"
    and e: "encode_columns None categorical_columns data10 = Inr (le, data)"
    by (rule preprocess_data_stages)
  from derive_columns_result[OF d] obtain full zipcode od dti price status delivery
    where od: "df_get dataset ''order date (DateOrders)'' = Inr od"
      and dti: "DatetimeIndex L od = Inr dti"
      and lod: "length od = nrows dataset"
      and all: "\<And>c. df_get data9 c = derived_column dataset full zipcode dti price status delivery c"
    by blast
  note same = preprocess_data_untouched[OF d r e]
  have zc: "df_get data ''Customer Zipcode'' = Inr (fillna (Num 0) zipcode)"
    by (subst same) (simp_all add: categorical_columns_def redundant_columns_def all derived_column_def)
  have fr: "df_get data ''fraud'' = Inr (where_eq ''SUSPECTED_FRAUD'' status)"
    by (subst same) (simp_all add: categorical_columns_def redundant_columns_def all derived_column_def)
  have lt: "df_get data ''late_delivery'' = Inr (where_eq ''Late delivery'' delivery)"
    by (subst same) (simp_all add: categorical_columns_def redundant_columns_def all derived_column_def)
  have yr: "df_get data ''order_year'' = Inr (map (dt_field ts_year) dti)"
    by (subst same) (simp_all add: categorical_columns_def redundant_columns_def all derived_column_def)
  have mo: "df_get data ''order_month'' = Inr (map (dt_field ts_month) dti)"
    by (subst same) (simp_all add: categorical_columns_def redundant_columns_def all derived_column_def)
  have hr: "df_get data ''order_hour'' = Inr (map (dt_field ts_hour) dti)"
    by (subst same) (simp_all add: categorical_columns_def redundant_columns_def all derived_column_def)
  have "''order_week_day'' \<in> set categorical_columns"
    by (simp add: categorical_columns_def)
  from encode_columns_column[OF e distinct_categorical_columns this]
  obtain orig classes week_day where wd: "df_get data ''order_week_day'' = Inr week_day"
    and tr: "le_transform (Some classes) orig = Inr week_day"
    by blast
  have ldti: "length dti = nrows dataset"
    using DatetimeIndex_length[OF dti] lod by simp
  have rows: "\<forall>i<nrows dataset.
      (map (dt_field ts_year) dti ! i = NaN \<longleftrightarrow> to_datetime1 L (od ! i) = Inr NaT) \<and>
      (map (dt_field ts_month) dti ! i = NaN \<longleftrightarrow> to_datetime1 L (od ! i) = Inr NaT) \<and>
      (map (dt_field ts_hour) dti ! i = NaN \<longleftrightarrow> to_datetime1 L (od ! i) = Inr NaT) \<and>
      (od ! i = NaN \<longrightarrow> map (dt_field ts_year) dti ! i = NaN \<and>
          map (dt_field ts_month) dti ! i = NaN \<and> map (dt_field ts_hour) dti ! i = NaN)"
  proof (intro allI impI)
    fix i assume i: "i < nrows dataset"
    with lod have "to_datetime1 L (od ! i) = Inr (dti ! i)"
      using DatetimeIndex_nth[OF dti] by simp
    moreover have "od ! i = NaN \<Longrightarrow> to_datetime1 L (od ! i) = Inr NaT"
      by (simp add: to_datetime1_def)
    ultimately show "(map (dt_field ts_year) dti ! i = NaN \<longleftrightarrow> to_datetime1 L (od ! i) = Inr NaT) \<and>
      (map (dt_field ts_month) dti ! i = NaN \<longleftrightarrow> to_datetime1 L (od ! i) = Inr NaT) \<and>
      (map (dt_field ts_hour) dti ! i = NaN \<longleftrightarrow> to_datetime1 L (od ! i) = Inr NaT) \<and>
      (od ! i = NaN \<longrightarrow> map (dt_field ts_year) dti ! i = NaN \<and>
          map (dt_field ts_month) dti ! i = NaN \<and> map (dt_field ts_hour) dti ! i = NaN)"
      using i ldti by (auto simp: dt_field_NaN)
  qed
  have "NaN \<notin> set (fillna (Num 0) zipcode)"
    by (simp add: fillna_no_NaN)
  moreover note where_eq_no_NaN[of "''SUSPECTED_FRAUD''" status]
    where_eq_no_NaN[of "''Late delivery''" delivery] le_transform_no_NaN[OF tr]
  moreover have "length (map (dt_field ts_year) dti) = nrows dataset"
    "length (map (dt_field ts_month) dti) = nrows dataset"
    "length (map (dt_field ts_hour) dti) = nrows dataset"
    using ldti by simp_all
  ultimately show ?thesis
    using zc wd fr lt od yr mo hr lod rows by blast
qed

theorem preprocess_missing_only_where_order_date_missing_witness:
  "preprocess_data example_lib example_dataset = Inr example_processed \<and>
   (\<exists>zipcode week_day fraud late.
      df_get example_processed ''Customer Zipcode'' = Inr zipcode \<and> NaN \<notin> set zipcode \<and>
      df_get example_processed ''order_week_day'' = Inr week_day \<and> NaN \<notin> set week_day \<and>
      df_get example_processed ''fraud'' = Inr fraud \<and> NaN \<notin> set fraud \<and>
      df_get example_processed ''late_delivery'' = Inr late \<and> NaN \<notin> set late) \<and>
   df_get example_processed ''order_year'' = Inr [Num 2018, NaN] \<and>
   to_datetime1 example_lib NaN = Inr NaT"
proof -
  have h: "preprocess_data example_lib example_dataset = Inr example_processed"
    by (rule preprocess_data_example)
  have y: "df_get example_processed ''order_year'' = Inr [Num 2018, NaN]"
    by code_simp
  have t: "to_datetime1 example_lib NaN = Inr NaT"
    by (simp add: to_datetime1_def)
  from preprocess_missing_only_where_order_date_missing[OF h] h y t show ?thesis
    by blast
qed

text \<open>
  The claim as the specification states it fails: a row without an order date has no
  \<^verbatim>\<open>order_year\<close>, \<^verbatim>\<open>order_month\<close> and \<^verbatim>\<open>order_hour\<close> in the returned table.
\<close>

theorem preprocess_missing_order_date_counterexample:
  "preprocess_data example_lib example_dataset = Inr example_processed \<and>
   df_get example_dataset ''order date (DateOrders)'' = Inr [Str ''1/31/2018 22:56'', NaN] \<and>
   df_get example_processed ''order_year'' = Inr [Num 2018, NaN] \<and>
   df_get example_processed ''order_month'' = Inr [Num 1, NaN] \<and>
   df_get example_processed ''order_hour'' = Inr [Num 22, NaN]"
proof -
  have "preprocess_data example_lib example_dataset = Inr example_processed"
    by (rule preprocess_data_example)
  moreover have "df_get example_dataset ''order date (DateOrders)'' = Inr [Str ''1/31/2018 22:56'', NaN]"
    by code_simp
  moreover have "df_get example_processed ''order_year'' = Inr [Num 2018, NaN]"
    by code_simp
  moreover have "df_get example_processed ''order_month'' = Inr [Num 1, NaN]"
    by code_simp
  moreover have "df_get example_processed ''order_hour'' = Inr [Num 22, NaN]"
    by code_simp
  ultimately show ?thesis by simp
qed

lemma index_of_Some: "index_of cs v = Some i \<Longrightarrow> i < length cs \<and> cs ! i = v"
  by (induction cs arbitrary: i) (auto split: if_splits)

lemma decode1_index_of: "index_of classes v = Some i \<Longrightarrow> decode1 classes (Num (of_nat i)) = Inr v"
  using index_of_Some[of classes v i] by (simp add: decode1_def)

lemma emap_decode1_codes:
  "emap (\<lambda>v. case index_of classes v of None \<Rightarrow> Inl ValueError
                                        | Some i \<Rightarrow> Inr (Num (of_nat i))) y = Inr codes \<Longrightarrow>
   emap (decode1 classes) codes = Inr y"
proof (induction y arbitrary: codes)
  case Nil
  then show ?case by simp
next
  case (Cons a y)
  from Cons.prems obtain i cs where i: "index_of classes a = Some i"
    and cs: "emap (\<lambda>v. case index_of classes v of None \<Rightarrow> Inl ValueError
                                                | Some i \<Rightarrow> Inr (Num (of_nat i))) y = Inr cs"
    and codes: "codes = Num (of_nat i) # cs"
    by (auto simp: ebind_Inr_iff split: option.splits)
  from Cons.IH[OF cs] decode1_index_of[OF i] codes show ?case
    by (simp add: ebind_def)
qed

lemma le_inverse_transform_transform:
  "le_transform (Some classes) y = Inr codes \<Longrightarrow> le_inverse_transform (Some classes) codes = Inr y"
  by (simp add: le_transform_def le_inverse_transform_def emap_decode1_codes)

text \<open>
  C7. For each of the sixteen categorical columns, the column that the loop stores is the
  code of every value under the encoder fitted on that column, and
  \<^verbatim>\<open>inverse_transform\<close> of that encoder gives the original values back. (The source keeps
  one encoder object and refits it; it returns no decoder.)
\<close>

theorem label_encoding_round_trip:
  assumes "preprocess_data L dataset = Inr data" and "col \<in> set categorical_columns"
  shows "\<exists>data9 data10 orig classes codes.
           derive_columns L dataset = Inr data9 \<and>
           df_drop data9 redundant_columns = Inr data10 \<and>
           df_get data10 col = Inr orig \<and>
           le_fit le0 orig = Inr (Some classes) \<and>
           le_transform (Some classes) orig = Inr codes \<and>
           df_get data col = Inr codes \<and>
           le_inverse_transform (Some classes) codes = Inr orig"
proof -
  from assms(1) obtain data9 data10 le where d: "derive_columns L dataset = Inr data9"
    and r: "df_drop data9 redundant_columns = Inr data10"
    and e: "encode_columns None categorical_columns data10 = Inr (le, data)"
    by (rule preprocess_data_stages)
  from encode_columns_column[OF e distinct_categorical_columns assms(2)]
  obtain orig classes codes where g: "df_get data10 col = Inr orig"
    and u: "unique_sorted orig = Inr classes"
    and t: "le_transform (Some classes) orig = Inr codes"
    and c: "df_get data col = Inr codes"
    by blast
  from u have "le_fit le0 orig = Inr (Some classes)"
    by (simp add: le_fit_def ebind_def)
  with d r g t c le_inverse_transform_transform[OF t] show ?thesis by blast
qed

theorem label_encoding_round_trip_witness:
  "preprocess_data example_lib example_dataset = Inr example_processed \<and>
   ''Customer Full Name'' \<in> set categorical_columns \<and>
   df_get example_processed ''Customer Full Name'' = Inr [Num 1, Num 0] \<and>
   (\<exists>orig classes.
      le_fit None orig = Inr (Some classes) \<and>
      le_transform (Some classes) orig = Inr [Num 1, Num 0] \<and>
      le_inverse_transform (Some classes) [Num 1, Num 0] = Inr orig)"
proof -
  have h: "preprocess_data example_lib example_dataset = Inr example_processed"
    by (rule preprocess_data_example)
  have m: "''Customer Full Name'' \<in> set categorical_columns"
    by (simp add: categorical_columns_def)
  have c: "df_get example_processed ''Customer Full Name'' = Inr [Num 1, Num 0]"
    by code_simp
  from label_encoding_round_trip[OF h m, of None] c h m show ?thesis
    by auto
qed

lemma n_test_fifth: "nat \<lceil>(1 / 5 :: rat) * of_nat n\<rceil> = (n + 4) div 5"
proof -
  have "\<lceil>(1 / 5 :: rat) * of_nat n\<rceil> = \<lceil>of_int (int n) / (of_int 5 :: rat)\<rceil>"
    by simp
  also have "\<dots> = - (- int n div 5)"
    by (simp only: ceiling_divide_eq_div)
  also have "\<dots> = (int n + 4) div 5"
    by presburger
  finally show ?thesis
    by (simp add: nat_div_distrib nat_add_distrib)
qed

lemma validate_fifth:
  "validate_shuffle_split n (1 / 5) =
     (if n < 2 then Inl ValueError else Inr (n - (n + 4) div 5, (n + 4) div 5))"
  unfolding validate_shuffle_split_def n_test_fifth Let_def
  by (auto)

lemma take_rows_Inr:
  "take_rows idx xs = Inr ys \<longleftrightarrow> (\<forall>i\<in>set idx. i < length xs) \<and> ys = map ((!) xs) idx"
  by (auto simp: take_rows_def list_all_iff)

lemma emap_total:
  "(\<And>x. x \<in> set xs \<Longrightarrow> f x = Inr (h x)) \<Longrightarrow> emap f xs = Inr (map h xs)"
  by (induction xs) auto

lemma df_iloc_wf:
  assumes "wf_dataframe df" and "\<forall>i\<in>set idx. i < nrows df"
  shows "df_iloc df idx =
           Inr \<lparr>index = map ((!) (index df)) idx,
                cols = map (\<lambda>kv. (fst kv, map ((!) (snd kv)) idx)) (cols df)\<rparr>"
proof -
  have a: "take_rows idx (index df) = Inr (map ((!) (index df)) idx)"
    using assms(2) by (simp add: take_rows_Inr nrows_def)
  have b: "emap (\<lambda>kv. ebind (take_rows idx (snd kv)) (\<lambda>v. Inr (fst kv, v))) (cols df) =
             Inr (map (\<lambda>kv. (fst kv, map ((!) (snd kv)) idx)) (cols df))"
  proof (rule emap_total)
    fix kv assume "kv \<in> set (cols df)"
    with assms(1) have "length (snd kv) = nrows df"
      by (auto simp: wf_dataframe_def list_all_iff)
    with assms(2) have "take_rows idx (snd kv) = Inr (map ((!) (snd kv)) idx)"
      by (simp add: take_rows_Inr)
    then show "ebind (take_rows idx (snd kv)) (\<lambda>v. Inr (fst kv, v)) =
                 Inr (fst kv, map ((!) (snd kv)) idx)"
      by simp
  qed
  show ?thesis
    by (simp add: df_iloc_def a b)
qed

lemma emap_fst:
  "emap (\<lambda>kv. ebind (g kv) (\<lambda>v. Inr (fst kv, v))) cs = Inr cs' \<Longrightarrow> map fst cs' = map fst cs"
  by (induction cs arbitrary: cs') (auto simp: ebind_Inr_iff)

lemma df_iloc_Inr:
  assumes "df_iloc df idx = Inr df'"
  shows "index df' = map ((!) (index df)) idx" and "columns df' = columns df"
    and "\<forall>i\<in>set idx. i < nrows df"
  using assms
  by (auto simp: df_iloc_def ebind_Inr_iff take_rows_Inr columns_def nrows_def dest: emap_fst)

lemma series_iloc_Inr:
  assumes "series_iloc y idx = Inr y'"
  shows "sindex y' = map ((!) (sindex y)) idx" and "svalues y' = map ((!) (svalues y)) idx"
  using assms by (auto simp: series_iloc_def ebind_Inr_iff take_rows_Inr)

lemma split_data_result:
  assumes "split_data R data t g = (Inr (X_train, X_test, y_train, y_test), g')"
  shows "\<exists>v perm n_test.
    df_get data t = Inr v \<and> length v = nrows data \<and> 2 \<le> nrows data \<and>
    perm = seeded_permutation R (nrows data) \<and> n_test = (nrows data + 4) div 5 \<and>
    df_iloc (df_loc_columns data (\<lambda>c. c \<noteq> t)) (take (nrows data - n_test) (drop n_test perm)) = Inr X_train \<and>
    df_iloc (df_loc_columns data (\<lambda>c. c \<noteq> t)) (take n_test perm) = Inr X_test \<and>
    series_iloc \<lparr>sindex = index data, svalues = v\<rparr> (take (nrows data - n_test) (drop n_test perm)) = Inr y_train \<and>
    series_iloc \<lparr>sindex = index data, svalues = v\<rparr> (take n_test perm) = Inr y_test \<and>
    g' = g"
proof -
  have n: "nrows (df_loc_columns data (\<lambda>c. c \<noteq> t)) = nrows data"
    by (simp add: df_loc_columns_def nrows_def)
  from assms obtain v where v: "df_get data t = Inr v"
    and tts: "train_test_split R (df_loc_columns data (\<lambda>c. c \<noteq> t))
               \<lparr>sindex = index data, svalues = v\<rparr> (1 / 5) (Some 42) g =
              (Inr (X_train, X_test, y_train, y_test), g')"
    by (auto simp: split_data_def Let_def split: sum.splits)
  from tts have len: "length v = nrows data"
    by (auto simp: train_test_split_def n split: if_splits)
  from tts len have two: "2 \<le> nrows data"
    by (auto simp: train_test_split_def n validate_fifth split: if_splits)
  from tts len two show ?thesis
    using v
    by (auto simp: train_test_split_def n validate_fifth rng_permutation_def
        seeded_permutation_def ebind_Inr_iff Let_def split: prod.splits)
qed

lemma df_get_wf:
  assumes "wf_dataframe df" and "c \<in> set (columns df)"
  obtains v where "df_get df c = Inr v" and "length v = nrows df"
proof -
  from assms(2) have "map_of (cols df) c \<noteq> None"
    by (simp add: map_of_eq_None_iff columns_def)
  then obtain v where m: "map_of (cols df) c = Some v"
    by auto
  then have "(c, v) \<in> set (cols df)"
    by (rule map_of_SomeD)
  with assms(1) have "length v = nrows df"
    by (auto simp: wf_dataframe_def list_all_iff)
  with m that show ?thesis
    by (simp add: df_get_def)
qed

lemma wf_df_loc_columns: "wf_dataframe df \<Longrightarrow> wf_dataframe (df_loc_columns df keep)"
  by (auto simp: wf_dataframe_def df_loc_columns_def columns_def nrows_def list_all_iff
      distinct_map_filter)

lemma permutation_length:
  assumes "distinct p" and "set p = {0..<n}"
  shows "length p = n"
  using distinct_card[OF assms(1)] assms(2) by simp

lemma split_data_succeeds:
  assumes wf: "wf_dataframe data" and t: "t \<in> set (columns data)" and two: "2 \<le> nrows data"
    and perm: "distinct (seeded_permutation R (nrows data))"
              "set (seeded_permutation R (nrows data)) = {0..<nrows data}"
  shows "\<exists>X_train X_test y_train y_test.
           split_data R data t g = (Inr (X_train, X_test, y_train, y_test), g)"
proof -
  let ?X = "df_loc_columns data (\<lambda>c. c \<noteq> t)"
  let ?p = "seeded_permutation R (nrows data)"
  let ?nt = "(nrows data + 4) div 5"
  let ?test = "take ?nt ?p"
  let ?train = "take (nrows data - ?nt) (drop ?nt ?p)"
  from wf t obtain v where v: "df_get data t = Inr v" and len: "length v = nrows data"
    by (rule df_get_wf)
  have n: "nrows ?X = nrows data"
    by (simp add: df_loc_columns_def nrows_def)
  have wfX: "wf_dataframe ?X"
    using wf by (rule wf_df_loc_columns)
  have test: "\<forall>i\<in>set ?test. i < nrows data"
    using perm(2) by (auto dest: in_set_takeD)
  have train: "\<forall>i\<in>set ?train. i < nrows data"
    using perm(2) by (auto dest!: in_set_takeD in_set_dropD)
  note a = df_iloc_wf[OF wfX, of ?train, unfolded n, OF train]
  note b = df_iloc_wf[OF wfX, of ?test, unfolded n, OF test]
  have c: "series_iloc \<lparr>sindex = index data, svalues = v\<rparr> ?train =
             Inr \<lparr>sindex = map ((!) (index data)) ?train, svalues = map ((!) v) ?train\<rparr>"
    using train len by (simp add: series_iloc_def take_rows_Inr[THEN iffD2] nrows_def)
  have d: "series_iloc \<lparr>sindex = index data, svalues = v\<rparr> ?test =
             Inr \<lparr>sindex = map ((!) (index data)) ?test, svalues = map ((!) v) ?test\<rparr>"
    using test len by (simp add: series_iloc_def take_rows_Inr[THEN iffD2] nrows_def)
  from two have e: "validate_shuffle_split (nrows data) (1 / 5) = Inr (nrows data - ?nt, ?nt)"
    by (simp add: validate_fifth)
  show ?thesis
    unfolding split_data_def train_test_split_def Let_def
    by (simp add: v len n e rng_permutation_def seeded_permutation_def[symmetric] a b c d)
qed

lemma index_df_loc_columns [simp]: "index (df_loc_columns df keep) = index df"
  by (simp add: df_loc_columns_def)

lemma columns_df_loc_columns: "columns (df_loc_columns df keep) = filter keep (columns df)"
  by (simp add: df_loc_columns_def columns_def filter_map comp_def)

lemma fifth_rounded_up: "(n::nat) \<le> 5 * ((n + 4) div 5) \<and> 5 * ((n + 4) div 5) < n + 5"
  by presburger

lemma fifth_le: "1 \<le> n \<Longrightarrow> (n + 4) div 5 \<le> (n::nat)"
  by presburger

lemma permuted_rows:
  assumes ix: "distinct ix" and p: "distinct p" "set p = {0..<length ix}"
  shows "distinct (map ((!) ix) (take k p) @ map ((!) ix) (drop k p))"
    and "set (map ((!) ix) (take k p)) \<union> set (map ((!) ix) (drop k p)) = set ix"
proof -
  have inj: "inj_on ((!) ix) (set p)"
    using ix p(2) by (simp add: inj_on_nth)
  have "distinct (map ((!) ix) p)"
    using p(1) inj by (simp add: distinct_map)
  then show "distinct (map ((!) ix) (take k p) @ map ((!) ix) (drop k p))"
    by (simp only: map_append[symmetric] append_take_drop_id)
  have "set (map ((!) ix) (take k p)) \<union> set (map ((!) ix) (drop k p)) = set (map ((!) ix) p)"
    by (simp only: set_append[symmetric] map_append[symmetric] append_take_drop_id)
  also have "\<dots> = (!) ix ` {0..<length ix}"
    using p(2) by simp
  also have "\<dots> = set ix"
    by (simp add: set_conv_nth image_def) (metis atLeastLessThan_iff zero_le)
  finally show "set (map ((!) ix) (take k p)) \<union> set (map ((!) ix) (drop k p)) = set ix" .
qed

lemma split_data_too_few_rows:
  assumes "t \<in> set (columns data)" and "nrows data < 2"
  shows "split_data R data t g = (Inl ValueError, g)"
proof -
  from assms(1) have "map_of (cols data) t \<noteq> None"
    by (simp add: map_of_eq_None_iff columns_def)
  then obtain v where v: "df_get data t = Inr v"
    by (auto simp: df_get_def)
  have n: "nrows (df_loc_columns data (\<lambda>c. c \<noteq> t)) = nrows data"
    by (simp add: df_loc_columns_def nrows_def)
  show ?thesis
    using assms(2) by (simp add: split_data_def v train_test_split_def n validate_fifth Let_def)
qed

text \<open>
  C3, as the code has it. For a table that has the target column: with fewer than two rows
  \<^verbatim>\<open>split_data\<close> raises ValueError (scikit-learn refuses an empty train set); with at
  least two rows it returns a train set and a test set whose row labels are disjoint and
  together are all row labels; the test set has a fifth of the rows, rounded up; and the
  result does not depend on the state of the global generator, which the call leaves as it
  was, so a second call gives the same partition.
\<close>

theorem split_data_partition:
  assumes t: "target_col \<in> set (columns data)"
  shows "(nrows data < 2 \<longrightarrow> split_data R data target_col g = (Inl ValueError, g)) \<and>
         (wf_dataframe data \<and> 2 \<le> nrows data \<and>
          distinct (seeded_permutation R (nrows data)) \<and>
          set (seeded_permutation R (nrows data)) = {0..<nrows data} \<longrightarrow>
          (\<exists>X_train X_test y_train y_test.
             split_data R data target_col g = (Inr (X_train, X_test, y_train, y_test), g) \<and>
             split_data R data target_col g2 = (Inr (X_train, X_test, y_train, y_test), g2) \<and>
             set (index X_train) \<inter> set (index X_test) = {} \<and>
             set (index X_train) \<union> set (index X_test) = set (index data) \<and>
             distinct (index X_train) \<and> distinct (index X_test) \<and>
             nrows X_train + nrows X_test = nrows data \<and>
             nrows data \<le> 5 * nrows X_test \<and> 5 * nrows X_test < nrows data + 5 \<and>
             sindex y_train = index X_train \<and> sindex y_test = index X_test))"
proof (intro conjI impI)
  assume "nrows data < 2"
  with t show "split_data R data target_col g = (Inl ValueError, g)"
    by (rule split_data_too_few_rows)
next
  assume h: "wf_dataframe data \<and> 2 \<le> nrows data \<and>
          distinct (seeded_permutation R (nrows data)) \<and>
          set (seeded_permutation R (nrows data)) = {0..<nrows data}"
  then have wf: "wf_dataframe data" and two: "2 \<le> nrows data"
    and perm: "distinct (seeded_permutation R (nrows data))"
              "set (seeded_permutation R (nrows data)) = {0..<nrows data}"
    by simp_all
  show "\<exists>X_train X_test y_train y_test.
             split_data R data target_col g = (Inr (X_train, X_test, y_train, y_test), g) \<and>
             split_data R data target_col g2 = (Inr (X_train, X_test, y_train, y_test), g2) \<and>
             set (index X_train) \<inter> set (index X_test) = {} \<and>
             set (index X_train) \<union> set (index X_test) = set (index data) \<and>
             distinct (index X_train) \<and> distinct (index X_test) \<and>
             nrows X_train + nrows X_test = nrows data \<and>
             nrows data \<le> 5 * nrows X_test \<and> 5 * nrows X_test < nrows data + 5 \<and>
             sindex y_train = index X_train \<and> sindex y_test = index X_test"
  proof -
    let ?p = "seeded_permutation R (nrows data)"
    let ?nt = "(nrows data + 4) div 5"
    from split_data_succeeds[OF wf t two perm, of g]
    obtain X_train X_test y_train y_test
      where s1: "split_data R data target_col g = (Inr (X_train, X_test, y_train, y_test), g)"
      by blast
    from split_data_succeeds[OF wf t two perm, of g2]
    obtain X_train2 X_test2 y_train2 y_test2
      where s2: "split_data R data target_col g2 = (Inr (X_train2, X_test2, y_train2, y_test2), g2)"
      by blast
    from split_data_result[OF s1] split_data_result[OF s2]
    have same: "X_train2 = X_train" "X_test2 = X_test" "y_train2 = y_train" "y_test2 = y_test"
      by auto
    from split_data_result[OF s1] obtain v
      where a: "df_iloc (df_loc_columns data (\<lambda>c. c \<noteq> target_col))
                  (take (nrows data - ?nt) (drop ?nt ?p)) = Inr X_train"
        and b: "df_iloc (df_loc_columns data (\<lambda>c. c \<noteq> target_col)) (take ?nt ?p) = Inr X_test"
        and c: "series_iloc \<lparr>sindex = index data, svalues = v\<rparr>
                  (take (nrows data - ?nt) (drop ?nt ?p)) = Inr y_train"
        and d: "series_iloc \<lparr>sindex = index data, svalues = v\<rparr> (take ?nt ?p) = Inr y_test"
      by auto
    have lp: "length ?p = nrows data"
      using perm by (rule permutation_length)
    then have tr: "take (nrows data - ?nt) (drop ?nt ?p) = drop ?nt ?p"
      by simp
    have ixtr: "index X_train = map ((!) (index data)) (drop ?nt ?p)"
      using df_iloc_Inr(1)[OF a] tr by simp
    have ixte: "index X_test = map ((!) (index data)) (take ?nt ?p)"
      using df_iloc_Inr(1)[OF b] by simp
    have dix: "distinct (index data)"
      using wf by (simp add: wf_dataframe_def)
    have p2: "set ?p = {0..<length (index data)}"
      using perm(2) by (simp add: nrows_def)
    note pr = permuted_rows[OF dix perm(1) p2, of ?nt]
    from pr(1) have disj: "set (index X_train) \<inter> set (index X_test) = {}"
      and d1: "distinct (index X_train)" and d2: "distinct (index X_test)"
      unfolding ixtr ixte by auto
    from pr(2) have un: "set (index X_train) \<union> set (index X_test) = set (index data)"
      unfolding ixtr ixte by auto
    from two have le: "?nt \<le> nrows data"
      by (intro fifth_le) simp
    have nte: "nrows X_test = ?nt"
      using ixte lp le by (simp add: nrows_def)
    have ntr: "nrows X_train = nrows data - ?nt"
      using ixtr lp by (simp add: nrows_def)
    have sz: "nrows X_train + nrows X_test = nrows data"
      using nte ntr le by simp
    have rnd: "nrows data \<le> 5 * nrows X_test \<and> 5 * nrows X_test < nrows data + 5"
      unfolding nte by (rule fifth_rounded_up)
    have sy: "sindex y_train = index X_train" "sindex y_test = index X_test"
      using series_iloc_Inr(1)[OF c] series_iloc_Inr(1)[OF d] ixtr ixte tr by simp_all
    from s1 s2 same disj un d1 d2 sz rnd sy show ?thesis
        by blast
    qed
qed

lemma split_data_example_fraud:
  "split_data example_rng example_small ''fraud'' 0 = (Inr example_split_fraud, 0)"
  by code_simp

lemma split_data_example_late:
  "split_data example_rng example_small ''late_delivery'' 0 = (Inr example_split_late, 0)"
  by code_simp

theorem split_data_partition_witness:
  "wf_dataframe example_small \<and> ''fraud'' \<in> set (columns example_small) \<and>
   2 \<le> nrows example_small \<and>
   seeded_permutation example_rng (nrows example_small) = [4, 3, 2, 1, 0] \<and>
   split_data example_rng example_small ''fraud'' 0 = (Inr example_split_fraud, 0) \<and>
   split_data example_rng example_small ''fraud'' 3 = (Inr example_split_fraud, 3) \<and>
   ''fraud'' \<in> set (columns (df_head 1 example_small)) \<and>
   nrows (df_head 1 example_small) = 1 \<and>
   split_data example_rng (df_head 1 example_small) ''fraud'' 0 = (Inl ValueError, 0) \<and>
   ''fraud'' \<in> set (columns (df_head 0 example_small)) \<and>
   nrows (df_head 0 example_small) = 0 \<and>
   split_data example_rng (df_head 0 example_small) ''fraud'' 0 = (Inl ValueError, 0)"
proof -
  have wf: "wf_dataframe example_small"
    by code_simp
  have t: "''fraud'' \<in> set (columns example_small)"
    by code_simp
  have n: "nrows example_small = 5"
    by code_simp
  have two: "2 \<le> nrows example_small"
    by (simp add: n)
  have p5: "seeded_permutation example_rng 5 = [4, 3, 2, 1, 0]"
    by code_simp
  have p: "seeded_permutation example_rng (nrows example_small) = [4, 3, 2, 1, 0]"
    by (simp add: n p5)
  have p1: "distinct (seeded_permutation example_rng (nrows example_small))"
    by (simp add: n p5)
  have "set [4, 3, 2, 1, 0] = {0..<5::nat}"
    by auto
  then have p2: "set (seeded_permutation example_rng (nrows example_small)) = {0..<nrows example_small}"
    by (simp add: n p5)
  from split_data_partition[OF t, of example_rng 0 3] wf two p1 p2 split_data_example_fraud
  have a: "split_data example_rng example_small ''fraud'' 3 = (Inr example_split_fraud, 3)"
    by auto
  have t1: "''fraud'' \<in> set (columns (df_head 1 example_small))"
    by code_simp
  have n1: "nrows (df_head 1 example_small) = 1"
    by code_simp
  from split_data_partition[OF t1, of example_rng 0] n1
  have b: "split_data example_rng (df_head 1 example_small) ''fraud'' 0 = (Inl ValueError, 0)"
    by simp
  have t0: "''fraud'' \<in> set (columns (df_head 0 example_small))"
    by code_simp
  have n0: "nrows (df_head 0 example_small) = 0"
    by code_simp
  from split_data_partition[OF t0, of example_rng 0] n0
  have c: "split_data example_rng (df_head 0 example_small) ''fraud'' 0 = (Inl ValueError, 0)"
    by simp
  from wf t two p split_data_example_fraud a t1 n1 b t0 n0 c show ?thesis
    by simp
qed

text \<open>
  The claim as the specification states it fails for a processed table of one row: the
  train set would be empty and \<^verbatim>\<open>train_test_split\<close> raises, so there is no partition.
\<close>

theorem split_data_single_row_counterexample:
  "preprocess_data example_lib (df_head 1 example_dataset) = Inr example_single \<and>
   nrows example_single = 1 \<and>
   split_data example_rng example_single ''fraud'' 0 = (Inl ValueError, 0)"
proof -
  have "preprocess_data example_lib (df_head 1 example_dataset) = Inr example_single"
    by code_simp
  moreover have "nrows example_single = 1"
    by code_simp
  moreover have "split_data example_rng example_single ''fraud'' 0 = (Inl ValueError, 0)"
    by code_simp
  ultimately show ?thesis by simp
qed

lemma df_get_in_columns: "df_get df c = Inr v \<Longrightarrow> c \<in> set (columns df)"
  by (auto simp: df_get_def columns_def split: option.splits dest!: map_of_SomeD intro: rev_image_eqI)

lemma preprocess_data_has_labels:
  assumes "preprocess_data L dataset = Inr data"
  shows "''fraud'' \<in> set (columns data)" and "''late_delivery'' \<in> set (columns data)"
proof -
  from assms obtain data9 data10 le where d: "derive_columns L dataset = Inr data9"
    and r: "df_drop data9 redundant_columns = Inr data10"
    and e: "encode_columns None categorical_columns data10 = Inr (le, data)"
    by (rule preprocess_data_stages)
  from derive_columns_result[OF d] obtain full zipcode dti price status delivery
    where all: "\<And>c. df_get data9 c = derived_column dataset full zipcode dti price status delivery c"
    by blast
  note same = preprocess_data_untouched[OF d r e]
  have "df_get data ''fraud'' = Inr (where_eq ''SUSPECTED_FRAUD'' status)"
    by (subst same) (simp_all add: categorical_columns_def redundant_columns_def all derived_column_def)
  then show "''fraud'' \<in> set (columns data)"
    by (rule df_get_in_columns)
  have "df_get data ''late_delivery'' = Inr (where_eq ''Late delivery'' delivery)"
    by (subst same) (simp_all add: categorical_columns_def redundant_columns_def all derived_column_def)
  then show "''late_delivery'' \<in> set (columns data)"
    by (rule df_get_in_columns)
qed

lemma emap_Inr_map:
  "emap f xs = Inr ys \<Longrightarrow> (\<And>x y. x \<in> set xs \<Longrightarrow> f x = Inr y \<Longrightarrow> y = h x) \<Longrightarrow> ys = map h xs"
  by (induction xs arbitrary: ys) (auto simp: ebind_Inr_iff)

lemma df_iloc_cols:
  assumes "df_iloc df idx = Inr df'"
  shows "cols df' = map (\<lambda>kv. (fst kv, map ((!) (snd kv)) idx)) (cols df)"
proof -
  from assms obtain cs where e: "emap (\<lambda>kv. ebind (take_rows idx (snd kv)) (\<lambda>v. Inr (fst kv, v))) (cols df) = Inr cs"
    and c: "cols df' = cs"
    by (auto simp: df_iloc_def ebind_Inr_iff)
  from e have "cs = map (\<lambda>kv. (fst kv, map ((!) (snd kv)) idx)) (cols df)"
    by (rule emap_Inr_map) (auto simp: ebind_Inr_iff take_rows_Inr)
  with c show ?thesis by simp
qed

lemma map_of_map_snd:
  "map_of (map (\<lambda>kv. (fst kv, h (snd kv))) xs) c = map_option h (map_of xs c)"
  by (induction xs) auto

lemma df_get_iloc:
  "df_iloc df idx = Inr df' \<Longrightarrow> df_get df c = Inr v \<Longrightarrow> df_get df' c = Inr (map ((!) v) idx)"
  by (auto simp: df_get_def df_iloc_cols map_of_map_snd[where h="\<lambda>v. map ((!) v) idx"]
      split: option.splits)

lemma df_get_loc_columns:
  "df_get (df_loc_columns df keep) c = (if keep c then df_get df c else Inl KeyError)"
  by (simp add: df_get_def df_loc_columns_def map_of_filter_fst)

text \<open>
  C9. The feature matrices that \<^verbatim>\<open>split_data\<close> builds from the processed table have every
  column of the table except the target, in the order of the table and with the values of
  the selected rows. So the features of the fraud split contain the late-delivery label, and
  the features of the late-delivery split contain the fraud label.
\<close>

theorem split_data_features_keep_other_label:
  assumes "preprocess_data L dataset = Inr data"
    and "split_data R data target_col g = (Inr (X_train, X_test, y_train, y_test), g')"
  shows "columns X_train = filter (\<lambda>c. c \<noteq> target_col) (columns data) \<and>
         columns X_test = filter (\<lambda>c. c \<noteq> target_col) (columns data) \<and>
         (\<exists>train_rows test_rows.
            index X_train = map ((!) (index data)) train_rows \<and>
            index X_test = map ((!) (index data)) test_rows \<and>
            (\<forall>c v. c \<noteq> target_col \<longrightarrow> df_get data c = Inr v \<longrightarrow>
               df_get X_train c = Inr (map ((!) v) train_rows) \<and>
               df_get X_test c = Inr (map ((!) v) test_rows))) \<and>
         (target_col = ''fraud'' \<longrightarrow>
            ''late_delivery'' \<in> set (columns X_train) \<and> ''late_delivery'' \<in> set (columns X_test)) \<and>
         (target_col = ''late_delivery'' \<longrightarrow>
            ''fraud'' \<in> set (columns X_train) \<and> ''fraud'' \<in> set (columns X_test))"
proof -
  from split_data_result[OF assms(2)] obtain tr te
    where a: "df_iloc (df_loc_columns data (\<lambda>c. c \<noteq> target_col)) tr = Inr X_train"
      and b: "df_iloc (df_loc_columns data (\<lambda>c. c \<noteq> target_col)) te = Inr X_test"
    by blast
  have ctr: "columns X_train = filter (\<lambda>c. c \<noteq> target_col) (columns data)"
    using df_iloc_Inr(2)[OF a] by (simp add: columns_df_loc_columns)
  have cte: "columns X_test = filter (\<lambda>c. c \<noteq> target_col) (columns data)"
    using df_iloc_Inr(2)[OF b] by (simp add: columns_df_loc_columns)
  have itr: "index X_train = map ((!) (index data)) tr"
    using df_iloc_Inr(1)[OF a] by simp
  have ite: "index X_test = map ((!) (index data)) te"
    using df_iloc_Inr(1)[OF b] by simp
  have vals: "\<forall>c v. c \<noteq> target_col \<longrightarrow> df_get data c = Inr v \<longrightarrow>
               df_get X_train c = Inr (map ((!) v) tr) \<and> df_get X_test c = Inr (map ((!) v) te)"
    using df_get_iloc[OF a] df_get_iloc[OF b] by (simp add: df_get_loc_columns)
  have lab: "(target_col = ''fraud'' \<longrightarrow>
            ''late_delivery'' \<in> set (columns X_train) \<and> ''late_delivery'' \<in> set (columns X_test)) \<and>
         (target_col = ''late_delivery'' \<longrightarrow>
            ''fraud'' \<in> set (columns X_train) \<and> ''fraud'' \<in> set (columns X_test))"
    using preprocess_data_has_labels[OF assms(1)] ctr cte by simp
  from ctr cte itr ite vals lab show ?thesis
    by blast
qed

theorem split_data_features_keep_other_label_witness:
  "preprocess_data example_lib example_dataset = Inr example_processed \<and>
   (\<exists>X_train X_test y_train y_test.
      split_data example_rng example_processed ''fraud'' 0 =
        (Inr (X_train, X_test, y_train, y_test), 0) \<and>
      ''late_delivery'' \<in> set (columns X_train) \<and> ''late_delivery'' \<in> set (columns X_test) \<and>
      ''fraud'' \<notin> set (columns X_train) \<and> ''fraud'' \<notin> set (columns X_test))"
proof -
  have h: "preprocess_data example_lib example_dataset = Inr example_processed"
    by (rule preprocess_data_example)
  have wf: "wf_dataframe example_processed"
    by code_simp
  have t: "''fraud'' \<in> set (columns example_processed)"
    by code_simp
  have n: "nrows example_processed = 2"
    by code_simp
  have p: "seeded_permutation example_rng 2 = [1, 0]"
    by code_simp
  have "\<exists>X_train X_test y_train y_test.
          split_data example_rng example_processed ''fraud'' 0 =
            (Inr (X_train, X_test, y_train, y_test), 0)"
    by (rule split_data_succeeds[OF wf t]) (auto simp: n p)
  then obtain X_train X_test y_train y_test
    where s: "split_data example_rng example_processed ''fraud'' 0 =
                (Inr (X_train, X_test, y_train, y_test), 0)"
    by blast
  from split_data_features_keep_other_label[OF h s] h s show ?thesis
    by auto
qed

text \<open>
  C10. The fraud split and the late-delivery split of one table draw the same permutation
  (a fresh generator with the seed 42, for the same number of rows), so their train sets
  have the same rows and their test sets have the same rows.
\<close>

theorem split_data_same_rows_for_both_targets:
  assumes "split_data R data ''fraud'' g = (Inr (X_train_f, X_test_f, y_train_f, y_test_f), g1)"
    and "split_data R data ''late_delivery'' g1' =
           (Inr (X_train_l, X_test_l, y_train_l, y_test_l), g2)"
  shows "index X_train_f = index X_train_l \<and> index X_test_f = index X_test_l \<and>
         sindex y_train_f = index X_train_f \<and> sindex y_test_f = index X_test_f \<and>
         sindex y_train_l = index X_train_l \<and> sindex y_test_l = index X_test_l \<and>
         (\<forall>r. r \<in> set (index X_test_f) \<longleftrightarrow> r \<in> set (index X_test_l)) \<and>
         (\<forall>r. r \<in> set (index X_train_f) \<longleftrightarrow> r \<in> set (index X_train_l))"
proof -
  let ?p = "seeded_permutation R (nrows data)"
  let ?nt = "(nrows data + 4) div 5"
  let ?tr = "take (nrows data - ?nt) (drop ?nt ?p)"
  let ?te = "take ?nt ?p"
  from split_data_result[OF assms(1)] obtain v
    where a: "df_iloc (df_loc_columns data (\<lambda>c. c \<noteq> ''fraud'')) ?tr = Inr X_train_f"
      and b: "df_iloc (df_loc_columns data (\<lambda>c. c \<noteq> ''fraud'')) ?te = Inr X_test_f"
      and c: "series_iloc \<lparr>sindex = index data, svalues = v\<rparr> ?tr = Inr y_train_f"
      and d: "series_iloc \<lparr>sindex = index data, svalues = v\<rparr> ?te = Inr y_test_f"
    by auto
  from split_data_result[OF assms(2)] obtain v'
    where a': "df_iloc (df_loc_columns data (\<lambda>c. c \<noteq> ''late_delivery'')) ?tr = Inr X_train_l"
      and b': "df_iloc (df_loc_columns data (\<lambda>c. c \<noteq> ''late_delivery'')) ?te = Inr X_test_l"
      and c': "series_iloc \<lparr>sindex = index data, svalues = v'\<rparr> ?tr = Inr y_train_l"
      and d': "series_iloc \<lparr>sindex = index data, svalues = v'\<rparr> ?te = Inr y_test_l"
    by auto
  have "index X_train_f = map ((!) (index data)) ?tr" "index X_train_l = map ((!) (index data)) ?tr"
       "index X_test_f = map ((!) (index data)) ?te" "index X_test_l = map ((!) (index data)) ?te"
       "sindex y_train_f = map ((!) (index data)) ?tr" "sindex y_train_l = map ((!) (index data)) ?tr"
       "sindex y_test_f = map ((!) (index data)) ?te" "sindex y_test_l = map ((!) (index data)) ?te"
    using df_iloc_Inr(1)[OF a] df_iloc_Inr(1)[OF a'] df_iloc_Inr(1)[OF b] df_iloc_Inr(1)[OF b']
      series_iloc_Inr(1)[OF c] series_iloc_Inr(1)[OF c'] series_iloc_Inr(1)[OF d]
      series_iloc_Inr(1)[OF d']
    by simp_all
  then show ?thesis
    by simp
qed

theorem split_data_same_rows_for_both_targets_witness:
  "split_data example_rng example_small ''fraud'' 0 = (Inr example_split_fraud, 0) \<and>
   split_data example_rng example_small ''late_delivery'' 0 = (Inr example_split_late, 0) \<and>
   index (fst example_split_fraud) = index (fst example_split_late) \<and>
   index (fst (snd example_split_fraud)) = index (fst (snd example_split_late)) \<and>
   index (fst (snd example_split_fraud)) = [4]"
proof -
  have f: "split_data example_rng example_small ''fraud'' 0 =
             (Inr (fst example_split_fraud, fst (snd example_split_fraud),
                   fst (snd (snd example_split_fraud)), snd (snd (snd example_split_fraud))), 0)"
    using split_data_example_fraud by simp
  have l: "split_data example_rng example_small ''late_delivery'' 0 =
             (Inr (fst example_split_late, fst (snd example_split_late),
                   fst (snd (snd example_split_late)), snd (snd (snd example_split_late))), 0)"
    using split_data_example_late by simp
  have i: "index (fst (snd example_split_fraud)) = [4]"
    by code_simp
  from split_data_same_rows_for_both_targets[OF f l] split_data_example_fraud
    split_data_example_late i
  show ?thesis
    by simp
qed




























text \<open>
  A column whose variance is small against its mean counts as constant and is scaled by 1:
  the column with the entries \<open>10 ^ 16\<close> and \<open>10 ^ 16 + 4\<close> has variance 4 and scale 1, and is
  scaled to \<open>- 2\<close> and 2, where dividing by the standard deviation would give \<open>- 1\<close> and 1.
\<close>

lemma near_constant_feature: "is_constant_feature 4 10000000000000002 (Suc (Suc 0))"
  by (simp add: is_constant_feature_def float_eps_def power2_eq_square divide_simps)

lemma scale_of_near_constant:
  "scale_of [Some 10000000000000000, Some 10000000000000004] = Some 1"
  by (simp add: scale_of_def nanmean_def nanvar_def present_def near_constant_feature)

lemma standardize_run_near_constant:
  "standardize_run [[Some 10000000000000000], [Some 10000000000000004]]
     [[Some 10000000000000003]] =
     Inr (Some \<lparr>sc_mean = [Some 10000000000000002], sc_var = [Some 4], sc_scale = [Some 1]\<rparr>,
          [[Some (- 2)], [Some 2]], [[Some 1]])"
  by (simp add: standardize_run_def scaler_fit_transform_def scaler_fit_def scaler_transform_def
      check_array_def column_of_def nanmean_def nanvar_def
      present_def scale_of_def scale_entry_def near_constant_feature upt_rec)

lemma evaluate_model_store:
  assumes "evaluate_model S a X_train X_test y_train y_test t w = (r, w')"
    and "a < length (objects w)"
  shows "length (objects w') = length (objects w)"
    and "b \<noteq> a \<Longrightarrow> objects w' ! b = objects w ! b"
    and "fst (objects w' ! a) = fst (objects w ! a)"
  using assms
  by (auto simp: evaluate_model_def Let_def split: prod.splits sum.splits)

lemma scored_iff:
  "scored S k p X_test y_test m \<longleftrightarrow>
     (\<exists>y_pred cm. predict S k p X_test = Inr y_pred \<and>
        accuracy_score S (svalues y_test) y_pred = Inr (fst m) \<and>
        recall_score S (svalues y_test) y_pred = Inr (fst (snd m)) \<and>
        f1_score S (svalues y_test) y_pred = Inr (snd (snd m)) \<and>
        confusion_matrix S (svalues y_test) y_pred = Inr cm)"
  by (auto simp: scored_def split: sum.splits)

lemma evaluate_model_Inr:
  assumes "evaluate_model S a X_train X_test y_train y_test t w = (Inr m, w')"
    and "a < length (objects w)"
  shows "\<exists>p. fit S (fst (objects w ! a)) X_train (svalues y_train) (rng w) = (Inr p, rng w') \<and>
              objects w' ! a = (fst (objects w ! a), Some p) \<and>
              scored S (fst (objects w ! a)) p X_test y_test m"
    and "trace w' = trace w @ [Fit a t (snd (objects w ! a) \<noteq> None) None, Predict a t None]"
proof -
  obtain k l where kl: "objects w ! a = (k, l)"
    by (cases "objects w ! a") auto
  from assms kl obtain p g y_pred acc rc f1 cm
    where f: "fit S k X_train (svalues y_train) (rng w) = (Inr p, g)"
      and pr: "predict S k p X_test = Inr y_pred"
      and sc: "accuracy_score S (svalues y_test) y_pred = Inr acc"
              "recall_score S (svalues y_test) y_pred = Inr rc"
              "f1_score S (svalues y_test) y_pred = Inr f1"
              "confusion_matrix S (svalues y_test) y_pred = Inr cm"
      and m: "m = (acc, rc, f1)"
      and w': "w' = w\<lparr>objects := (objects w)[a := (k, Some p)], rng := g,
                      trace := trace w @ [Fit a t (l \<noteq> None) None, Predict a t None]\<rparr>"
    by (auto simp: evaluate_model_def Let_def ebind_Inr_iff split: prod.splits sum.splits)
  have "scored S k p X_test y_test m"
    unfolding scored_iff using pr sc m by auto
  with f w' kl assms(2)
  show "\<exists>p. fit S (fst (objects w ! a)) X_train (svalues y_train) (rng w) = (Inr p, rng w') \<and>
              objects w' ! a = (fst (objects w ! a), Some p) \<and>
              scored S (fst (objects w ! a)) p X_test y_test m"
    by auto
  from w' kl show "trace w' = trace w @ [Fit a t (snd (objects w ! a) \<noteq> None) None, Predict a t None]"
    by simp
qed

lemma evaluate_model_Inl:
  assumes "evaluate_model S a X_train X_test y_train y_test t w = (Inl e, w')"
    and "a < length (objects w)"
  shows "trace w' = trace w @ [Fit a t (snd (objects w ! a) \<noteq> None) (Some e)] \<or>
         trace w' = trace w @ [Fit a t (snd (objects w ! a) \<noteq> None) None, Predict a t (Some e)] \<or>
         trace w' = trace w @ [Fit a t (snd (objects w ! a) \<noteq> None) None, Predict a t None]"
  using assms
  by (auto simp: evaluate_model_def Let_def split: prod.splits sum.splits)

text \<open>
  A raise of \<^verbatim>\<open>fit\<close> or of \<^verbatim>\<open>predict\<close> is the result of \<^verbatim>\<open>evaluate_model\<close>, and a raise
  of \<^verbatim>\<open>evaluate_model\<close> ends the loop at once.
\<close>

lemma evaluate_model_fit_raises:
  assumes "a < length (objects w)"
    and "fit S (fst (objects w ! a)) X_train (svalues y_train) (rng w) = (Inl e, g)"
  shows "evaluate_model S a X_train X_test y_train y_test t w =
           (Inl e, w\<lparr>trace := trace w @ [Fit a t (snd (objects w ! a) \<noteq> None) (Some e)],
                     rng := g\<rparr>)"
  using assms by (cases "objects w ! a") (auto simp: evaluate_model_def Let_def)

lemma evaluate_model_predict_raises:
  assumes "a < length (objects w)"
    and "fit S (fst (objects w ! a)) X_train (svalues y_train) (rng w) = (Inr p, g)"
    and "predict S (fst (objects w ! a)) p X_test = Inl e"
  shows "fst (evaluate_model S a X_train X_test y_train y_test t w) = Inl e"
  using assms by (cases "objects w ! a") (auto simp: evaluate_model_def Let_def)

lemma run_loop_fraud_raises:
  assumes "eval_on S a sp_f ''fraud'' w = (Inl e, w1)"
  shows "run_loop S sp_f sp_l (a # rest) res w = (Inl e, w1)"
  using assms by simp

lemma run_loop_late_raises:
  assumes "eval_on S a sp_f ''fraud'' w = (Inr x, w1)"
    and "eval_on S a sp_l ''late_delivery'' w1 = (Inl e, w2)"
  shows "run_loop S sp_f sp_l (a # rest) res w = (Inl e, w2)"
  using assms by (simp split: prod.splits)

lemma roster_events_Cons: "roster_events (a # ms) = model_events a @ roster_events ms"
  by (simp add: roster_events_def)

lemma length_model_events [simp]: "length (model_events a) = 4"
  by (simp add: model_events_def)

lemma length_roster_events: "length (roster_events ms) = 4 * length ms"
  by (induction ms) (simp_all add: roster_events_def model_events_def)

lemma run_loop_other_objects:
  assumes "run_loop S sp_f sp_l ms res w = (r, w')"
    and "\<forall>a\<in>set ms. a < length (objects w)"
  shows "length (objects w') = length (objects w) \<and>
         (\<forall>b. b \<notin> set ms \<longrightarrow> objects w' ! b = objects w ! b)"
  using assms
proof (induction ms arbitrary: res w)
  case Nil
  then show ?case by simp
next
  case (Cons a ms)
  obtain Xf1 Xf2 yf1 yf2 where f: "sp_f = (Xf1, Xf2, yf1, yf2)" by (cases sp_f) auto
  obtain Xl1 Xl2 yl1 yl2 where l: "sp_l = (Xl1, Xl2, yl1, yl2)" by (cases sp_l) auto
  from Cons.prems(2) have a: "a < length (objects w)" by simp
  obtain r1 w1 where e1: "evaluate_model S a Xf1 Xf2 yf1 yf2 ''fraud'' w = (r1, w1)"
    by (cases "evaluate_model S a Xf1 Xf2 yf1 yf2 ''fraud'' w") auto
  note s1 = evaluate_model_store[OF e1 a]
  have a1: "a < length (objects w1)" using s1(1) a by simp
  obtain r2 w2 where e2: "evaluate_model S a Xl1 Xl2 yl1 yl2 ''late_delivery'' w1 = (r2, w2)"
    by (cases "evaluate_model S a Xl1 Xl2 yl1 yl2 ''late_delivery'' w1") auto
  note s2 = evaluate_model_store[OF e2 a1]
  show ?case
  proof (cases r1)
    case (Inl e)
    with Cons.prems(1) e1 have "w' = w1"
      by (simp add: eval_on_def f)
    with s1 show ?thesis by simp
  next
    case r1: (Inr x1)
    show ?thesis
    proof (cases r2)
      case (Inl e)
      with Cons.prems(1) e1 e2 r1 have "w' = w2"
        by (simp add: eval_on_def f l split: prod.splits)
      with s1 s2 show ?thesis by simp
    next
      case r2: (Inr x2)
      with Cons.prems(1) e1 e2 r1 obtain row
        where r: "run_loop S sp_f sp_l ms (res @ [row]) w2 = (r, w')"
        by (auto simp: eval_on_def f l split: prod.splits)
      have "\<forall>b\<in>set ms. b < length (objects w2)"
        using Cons.prems(2) s1(1) s2(1) by simp
      from Cons.IH[OF r this] s1 s2 show ?thesis by simp
    qed
  qed
qed

text \<open>
  The loop when nothing raises. Every model has made its four calls; its row holds the
  metrics of the predictions made with what each \<^verbatim>\<open>fit\<close> returned; and the object is left
  with what the \<^verbatim>\<open>fit\<close> on the late-delivery split returned.
\<close>

lemma run_loop_Inr:
  assumes "run_loop S (Xf1, Xf2, yf1, yf2) (Xl1, Xl2, yl1, yl2) ms res w = (Inr res', w')"
    and "distinct ms"
    and "\<forall>a\<in>set ms. a < length (objects w) \<and> snd (objects w ! a) = None"
  shows "trace w' = trace w @ roster_events ms \<and>
         length (objects w') = length (objects w) \<and>
         (\<exists>rows. res' = res @ rows \<and>
            list_all2
              (\<lambda>a row.
                 Model row = class_name (fst (objects w ! a)) \<and>
                 (\<exists>g g' p. fit S (fst (objects w ! a)) Xf1 (svalues yf1) g = (Inr p, g') \<and>
                    scored S (fst (objects w ! a)) p Xf2 yf2 (fraud_metrics row)) \<and>
                 (\<exists>g g' p. fit S (fst (objects w ! a)) Xl1 (svalues yl1) g = (Inr p, g') \<and>
                    scored S (fst (objects w ! a)) p Xl2 yl2 (late_metrics row) \<and>
                    objects w' ! a = (fst (objects w ! a), Some p)))
              ms rows)"
  using assms
proof (induction ms arbitrary: res w)
  case Nil
  then show ?case by (simp add: roster_events_def)
next
  case (Cons a ms)
  let ?sf = "(Xf1, Xf2, yf1, yf2)" and ?sl = "(Xl1, Xl2, yl1, yl2)"
  from Cons.prems(3) have a: "a < length (objects w)" "snd (objects w ! a) = None" by auto
  from Cons.prems(1) obtain m1 w1 m2 w2
    where e1: "evaluate_model S a Xf1 Xf2 yf1 yf2 ''fraud'' w = (Inr m1, w1)"
      and e2: "evaluate_model S a Xl1 Xl2 yl1 yl2 ''late_delivery'' w1 = (Inr m2, w2)"
      and r0: "run_loop S ?sf ?sl ms
                (res @ [\<lparr>Model = class_name (fst (objects w2 ! a)),
                          Fraud_Detection_Accuracy = fst m1,
                          Fraud_Detection_Recall = fst (snd m1),
                          Fraud_Detection_F1 = snd (snd m1),
                          Late_Delivery_Accuracy = fst m2,
                          Late_Delivery_Recall = fst (snd m2),
                          Late_Delivery_F1 = snd (snd m2)\<rparr>]) w2 = (Inr res', w')"
    by (auto simp: eval_on_def split: prod.splits sum.splits)
  let ?row = "\<lparr>Model = class_name (fst (objects w ! a)),
                Fraud_Detection_Accuracy = fst m1,
                Fraud_Detection_Recall = fst (snd m1),
                Fraud_Detection_F1 = snd (snd m1),
                Late_Delivery_Accuracy = fst m2,
                Late_Delivery_Recall = fst (snd m2),
                Late_Delivery_F1 = snd (snd m2)\<rparr>"
  note s1 = evaluate_model_store[OF e1 a(1)] and t1 = evaluate_model_Inr[OF e1 a(1)]
  have a1: "a < length (objects w1)" using s1(1) a(1) by simp
  note s2 = evaluate_model_store[OF e2 a1] and t2 = evaluate_model_Inr[OF e2 a1]
  have k2: "fst (objects w2 ! a) = fst (objects w ! a)"
    using s1(3) s2(3) by simp
  note r = r0[unfolded k2]
  have tr: "trace w2 = trace w @ model_events a"
    using t1(2) t2(2) t1(1) a(2) by (auto simp: model_events_def)
  have len: "length (objects w2) = length (objects w)"
    using s1(1) s2(1) by simp
  from Cons.prems(2) have d: "distinct ms" "a \<notin> set ms" by auto
  have rest: "\<forall>b\<in>set ms. b < length (objects w2) \<and> snd (objects w2 ! b) = None"
  proof
    fix b assume b: "b \<in> set ms"
    with d(2) have "b \<noteq> a" by auto
    with b Cons.prems(3) s1(2) s2(2) len show "b < length (objects w2) \<and> snd (objects w2 ! b) = None"
      by simp
  qed
  have same: "fst (objects w2 ! b) = fst (objects w ! b)" if "b \<in> set ms" for b
  proof -
    from that d(2) have "b \<noteq> a" by auto
    with s1(2) s2(2) show ?thesis by simp
  qed
  from Cons.IH[OF r d(1) rest] obtain rows
    where ih1: "trace w' = trace w2 @ roster_events ms"
      and ih2: "length (objects w') = length (objects w2)"
      and ih3: "res' = (res @ [?row]) @ rows"
      and ih4: "list_all2
              (\<lambda>a row.
                 Model row = class_name (fst (objects w2 ! a)) \<and>
                 (\<exists>g g' p. fit S (fst (objects w2 ! a)) Xf1 (svalues yf1) g = (Inr p, g') \<and>
                    scored S (fst (objects w2 ! a)) p Xf2 yf2 (fraud_metrics row)) \<and>
                 (\<exists>g g' p. fit S (fst (objects w2 ! a)) Xl1 (svalues yl1) g = (Inr p, g') \<and>
                    scored S (fst (objects w2 ! a)) p Xl2 yl2 (late_metrics row) \<and>
                    objects w' ! a = (fst (objects w2 ! a), Some p)))
              ms rows"
    by blast
  have rows: "list_all2
              (\<lambda>a row.
                 Model row = class_name (fst (objects w ! a)) \<and>
                 (\<exists>g g' p. fit S (fst (objects w ! a)) Xf1 (svalues yf1) g = (Inr p, g') \<and>
                    scored S (fst (objects w ! a)) p Xf2 yf2 (fraud_metrics row)) \<and>
                 (\<exists>g g' p. fit S (fst (objects w ! a)) Xl1 (svalues yl1) g = (Inr p, g') \<and>
                    scored S (fst (objects w ! a)) p Xl2 yl2 (late_metrics row) \<and>
                    objects w' ! a = (fst (objects w ! a), Some p)))
              ms rows"
    using ih4 by (rule list.rel_mono_strong) (simp add: same)
  have "\<forall>b\<in>set ms. b < length (objects w2)"
    using rest by simp
  from run_loop_other_objects[OF r this] d(2) have keep: "objects w' ! a = objects w2 ! a"
    by simp
  from t1(1) obtain pf where pf: "fit S (fst (objects w ! a)) Xf1 (svalues yf1) (rng w) = (Inr pf, rng w1)"
    and sf: "scored S (fst (objects w ! a)) pf Xf2 yf2 m1"
    by blast
  from t2(1) s1(3) obtain pl
    where pl: "fit S (fst (objects w ! a)) Xl1 (svalues yl1) (rng w1) = (Inr pl, rng w2)"
      and sl: "scored S (fst (objects w ! a)) pl Xl2 yl2 m2"
      and ol: "objects w2 ! a = (fst (objects w ! a), Some pl)"
    by auto
  have first: "Model ?row = class_name (fst (objects w ! a)) \<and>
                 (\<exists>g g' p. fit S (fst (objects w ! a)) Xf1 (svalues yf1) g = (Inr p, g') \<and>
                    scored S (fst (objects w ! a)) p Xf2 yf2 (fraud_metrics ?row)) \<and>
                 (\<exists>g g' p. fit S (fst (objects w ! a)) Xl1 (svalues yl1) g = (Inr p, g') \<and>
                    scored S (fst (objects w ! a)) p Xl2 yl2 (late_metrics ?row) \<and>
                    objects w' ! a = (fst (objects w ! a), Some p))"
  proof (intro conjI)
    show "Model ?row = class_name (fst (objects w ! a))"
      by simp
    show "\<exists>g g' p. fit S (fst (objects w ! a)) Xf1 (svalues yf1) g = (Inr p, g') \<and>
                    scored S (fst (objects w ! a)) p Xf2 yf2 (fraud_metrics ?row)"
      using pf sf by (auto simp: fraud_metrics_def)
    show "\<exists>g g' p. fit S (fst (objects w ! a)) Xl1 (svalues yl1) g = (Inr p, g') \<and>
                    scored S (fst (objects w ! a)) p Xl2 yl2 (late_metrics ?row) \<and>
                    objects w' ! a = (fst (objects w ! a), Some p)"
      using pl sl ol keep by (auto simp: late_metrics_def)
  qed
  have "res' = res @ (?row # rows)"
    using ih3 by simp
  moreover from first rows have "list_all2
              (\<lambda>a row.
                 Model row = class_name (fst (objects w ! a)) \<and>
                 (\<exists>g g' p. fit S (fst (objects w ! a)) Xf1 (svalues yf1) g = (Inr p, g') \<and>
                    scored S (fst (objects w ! a)) p Xf2 yf2 (fraud_metrics row)) \<and>
                 (\<exists>g g' p. fit S (fst (objects w ! a)) Xl1 (svalues yl1) g = (Inr p, g') \<and>
                    scored S (fst (objects w ! a)) p Xl2 yl2 (late_metrics row) \<and>
                    objects w' ! a = (fst (objects w ! a), Some p)))
              (a # ms) (?row # rows)"
    by simp
  ultimately show ?case
    using ih1 ih2 tr len by (auto simp: roster_events_Cons)
qed

text \<open>
  The loop when a call raises: the events are a beginning of the events of the whole loop,
  followed by the call that raised, if it is a call of \<^verbatim>\<open>fit\<close> or \<^verbatim>\<open>predict\<close>; when a
  metric raised, the last event is a call of \<^verbatim>\<open>predict\<close> that returned.
\<close>

lemma roster_events_Cons_events:
  "roster_events (a # ms) =
     Fit a ''fraud'' False None # Predict a ''fraud'' None #
     Fit a ''late_delivery'' True None # Predict a ''late_delivery'' None # roster_events ms"
  by (simp add: roster_events_Cons model_events_def)

lemma run_loop_Inl:
  assumes "run_loop S sp_f sp_l ms res w = (Inl e, w')" and "distinct ms"
    and "\<forall>a\<in>set ms. a < length (objects w) \<and> snd (objects w ! a) = None"
  shows "\<exists>new. trace w' = trace w @ new \<and>
           ((\<exists>k<4 * length ms.
               new = take k (roster_events ms) @ [raise_at e (roster_events ms ! k)]) \<or>
            (\<exists>k. 0 < k \<and> k \<le> 4 * length ms \<and> even k \<and> new = take k (roster_events ms)))"
  using assms
proof (induction ms arbitrary: res w)
  case Nil
  then show ?case by simp
next
  case (Cons a ms)
  obtain Xf1 Xf2 yf1 yf2 where f: "sp_f = (Xf1, Xf2, yf1, yf2)" by (cases sp_f) auto
  obtain Xl1 Xl2 yl1 yl2 where l: "sp_l = (Xl1, Xl2, yl1, yl2)" by (cases sp_l) auto
  from Cons.prems(3) have a: "a < length (objects w)" "snd (objects w ! a) = None" by auto
  obtain r1 w1 where e1: "evaluate_model S a Xf1 Xf2 yf1 yf2 ''fraud'' w = (r1, w1)"
    by (cases "evaluate_model S a Xf1 Xf2 yf1 yf2 ''fraud'' w") auto
  note s1 = evaluate_model_store[OF e1 a(1)]
  have a1: "a < length (objects w1)" using s1(1) a(1) by simp
  obtain r2 w2 where e2: "evaluate_model S a Xl1 Xl2 yl1 yl2 ''late_delivery'' w1 = (r2, w2)"
    by (cases "evaluate_model S a Xl1 Xl2 yl1 yl2 ''late_delivery'' w1") auto
  note s2 = evaluate_model_store[OF e2 a1]
  note ev = roster_events_Cons_events[of a ms]
  let ?R = "roster_events (a # ms)"
  show ?case
  proof (cases r1)
    case (Inl e1')
    with Cons.prems(1) e1 have w': "w' = w1" and e': "e1' = e"
      by (simp_all add: eval_on_def f)
    from evaluate_model_Inl[OF e1[unfolded Inl e'] a(1)] a(2)
    consider "trace w1 = trace w @ take 0 ?R @ [raise_at e (?R ! 0)]"
      | "trace w1 = trace w @ take 1 ?R @ [raise_at e (?R ! 1)]"
      | "trace w1 = trace w @ take 2 ?R"
      by (auto simp: ev)
    then show ?thesis
    proof cases
      case 1
      moreover have "0 < 4 * length (a # ms)" "take 0 ?R @ [raise_at e (?R ! 0)] = take 0 ?R @ [raise_at e (?R ! 0)]" by simp_all
      ultimately show ?thesis unfolding w' by blast
    next
      case 2
      moreover have "1 < 4 * length (a # ms)" "take 1 ?R @ [raise_at e (?R ! 1)] = take 1 ?R @ [raise_at e (?R ! 1)]" by simp_all
      ultimately show ?thesis unfolding w' by blast
    next
      case 3
      moreover have "0 < (2::nat)" "2 \<le> 4 * length (a # ms)" "even (2::nat)" by simp_all
      ultimately show ?thesis unfolding w' by blast
    qed
  next
    case r1: (Inr x1)
    note t1 = evaluate_model_Inr[OF e1[unfolded r1] a(1)]
    from t1(1) have fitted: "snd (objects w1 ! a) \<noteq> None" by auto
    show ?thesis
    proof (cases r2)
      case (Inl e2')
      with Cons.prems(1) e1 e2 r1 have w': "w' = w2" and e': "e2' = e"
        by (simp_all add: eval_on_def f l split: prod.splits)
      from evaluate_model_Inl[OF e2[unfolded Inl e'] a1] t1(2) a(2) fitted
      consider "trace w2 = trace w @ take 2 ?R @ [raise_at e (?R ! 2)]"
        | "trace w2 = trace w @ take 3 ?R @ [raise_at e (?R ! 3)]"
        | "trace w2 = trace w @ take 4 ?R"
        by (auto simp: ev)
      then show ?thesis
      proof cases
        case 1
        moreover have "2 < 4 * length (a # ms)" "take 2 ?R @ [raise_at e (?R ! 2)] = take 2 ?R @ [raise_at e (?R ! 2)]" by simp_all
      ultimately show ?thesis unfolding w' by blast
      next
        case 2
        moreover have "3 < 4 * length (a # ms)" "take 3 ?R @ [raise_at e (?R ! 3)] = take 3 ?R @ [raise_at e (?R ! 3)]" by simp_all
      ultimately show ?thesis unfolding w' by blast
      next
        case 3
        moreover have "0 < (4::nat)" "4 \<le> 4 * length (a # ms)" "even (4::nat)" by simp_all
      ultimately show ?thesis unfolding w' by blast
      qed
    next
      case r2: (Inr x2)
      note t2 = evaluate_model_Inr[OF e2[unfolded r2] a1]
      from Cons.prems(1) e1 e2 r1 r2 obtain row
        where r: "run_loop S sp_f sp_l ms (res @ [row]) w2 = (Inl e, w')"
        by (auto simp: eval_on_def f l split: prod.splits)
      have tr: "trace w2 = trace w @ model_events a"
        using t1(2) t2(2) a(2) fitted by (simp add: model_events_def)
      have rest: "\<forall>b\<in>set ms. b < length (objects w2) \<and> snd (objects w2 ! b) = None"
      proof
        fix b assume b: "b \<in> set ms"
        with Cons.prems(2) have "b \<noteq> a" by auto
        with b Cons.prems(3) s1 s2 show "b < length (objects w2) \<and> snd (objects w2 ! b) = None"
          by simp
      qed
      from Cons.prems(2) have "distinct ms" by simp
      from Cons.IH[OF r this rest] obtain new
        where tn: "trace w' = trace w2 @ new"
          and sh: "(\<exists>k<4 * length ms.
                      new = take k (roster_events ms) @ [raise_at e (roster_events ms ! k)]) \<or>
                   (\<exists>k. 0 < k \<and> k \<le> 4 * length ms \<and> even k \<and> new = take k (roster_events ms))"
        by blast
      have t: "trace w' = trace w @ (model_events a @ new)"
        using tn tr by simp
      from sh show ?thesis
      proof
        assume "\<exists>k<4 * length ms.
                  new = take k (roster_events ms) @ [raise_at e (roster_events ms ! k)]"
        then obtain k where k: "k < 4 * length ms"
          and n: "new = take k (roster_events ms) @ [raise_at e (roster_events ms ! k)]"
          by blast
        have "model_events a @ new = take (4 + k) ?R @ [raise_at e (?R ! (4 + k))]"
          using n by (simp add: roster_events_Cons nth_append)
        moreover have "4 + k < 4 * length (a # ms)"
          using k by simp
        ultimately show ?thesis
          using t by blast
      next
        assume "\<exists>k. 0 < k \<and> k \<le> 4 * length ms \<and> even k \<and> new = take k (roster_events ms)"
        then obtain k where k: "0 < k" "k \<le> 4 * length ms" "even k"
          and n: "new = take k (roster_events ms)"
          by blast
        have "model_events a @ new = take (4 + k) ?R"
          using n by (simp add: roster_events_Cons)
        moreover have "0 < 4 + k" "4 + k \<le> 4 * length (a # ms)" "even (4 + k)"
          using k by simp_all
        ultimately show ?thesis
          using t by blast
      qed
    qed
  qed
qed

lemma roster_events_quiet:
  "ev \<in> set (roster_events ms) \<Longrightarrow> raised ev = None \<and> \<not> is_write ev"
  by (induction ms) (auto simp: roster_events_def model_events_def)

lemma raised_raise_at: "\<not> is_write ev \<Longrightarrow> raised (raise_at e ev) = Some e \<and> \<not> is_write (raise_at e ev)"
  by (cases ev) simp_all

lemma roster_events_nth:
  "i < 4 * length ms \<Longrightarrow> roster_events ms ! i = model_events (ms ! (i div 4)) ! (i mod 4)"
proof (induction ms arbitrary: i)
  case Nil
  then show ?case by simp
next
  case (Cons a ms)
  show ?case
  proof (cases "i < 4")
    case True
    then show ?thesis
      by (simp add: roster_events_Cons nth_append)
  next
    case False
    then have i: "i - 4 < 4 * length ms" "(i - 4) div 4 = i div 4 - 1" "(i - 4) mod 4 = i mod 4"
      "0 < i div 4"
      using Cons.prems by (simp, presburger, presburger, presburger)
    from Cons.IH[OF i(1)] i False show ?thesis
      by (simp add: roster_events_Cons nth_append)
  qed
qed

lemma late_fit_position:
  assumes "i < 4 * length ms" and "roster_events ms ! i = Fit a ''late_delivery'' b x"
  shows "b \<and> a \<in> set ms \<and> 2 \<le> i \<and> roster_events ms ! (i - 2) = Fit a ''fraud'' False None"
proof -
  let ?j = "i div 4"
  have j: "?j < length ms" using assms(1) by simp
  have c: "i mod 4 = 0 \<or> i mod 4 = 1 \<or> i mod 4 = 2 \<or> i mod 4 = 3"
    by presburger
  from assms(2) roster_events_nth[OF assms(1)]
  have m: "model_events (ms ! ?j) ! (i mod 4) = Fit a ''late_delivery'' b x"
    by simp
  with c have c2: "i mod 4 = 2" and ab: "a = ms ! ?j" "b"
    by (auto simp: model_events_def)
  from c2 have i2: "2 \<le> i" "(i - 2) div 4 = ?j" "(i - 2) mod 4 = 0"
    by presburger+
  have "i - 2 < 4 * length ms" using assms(1) by simp
  from roster_events_nth[OF this] i2 ab have "roster_events ms ! (i - 2) = Fit a ''fraud'' False None"
    by (simp add: model_events_def)
  with ab j i2(1) show ?thesis by simp
qed

lemma fraud_fit_position:
  assumes "i < 4 * length ms" and "roster_events ms ! i = Fit a ''fraud'' b x"
  shows "\<not> b"
proof -
  have c: "i mod 4 = 0 \<or> i mod 4 = 1 \<or> i mod 4 = 2 \<or> i mod 4 = 3"
    by presburger
  from assms(2) roster_events_nth[OF assms(1)]
  have "model_events (ms ! (i div 4)) ! (i mod 4) = Fit a ''fraud'' b x"
    by simp
  with c show ?thesis
    by (auto simp: model_events_def)
qed

lemma raise_at_Fit: "raise_at e ev = Fit a t b x \<Longrightarrow> \<exists>x0. ev = Fit a t b x0"
  by (cases ev) simp_all

text \<open>
  In a trace that is a beginning of the events of the loop, followed by nothing, by the
  call that raised or by the write: a \<^verbatim>\<open>fit\<close> for the late-delivery target is on a fitted
  object of the roster and comes after the \<^verbatim>\<open>fit\<close> for the fraud target on that object.
\<close>

lemma late_fit_in_run:
  assumes "new = take k (roster_events ms) @ rest"
    and "rest = [] \<or> (k < 4 * length ms \<and> rest = [raise_at e (roster_events ms ! k)]) \<or>
         (\<exists>f rows. rest = [ToCsv f rows])"
    and "Fit a ''late_delivery'' b x \<in> set new"
  shows "b \<and> a \<in> set ms \<and> Fit a ''fraud'' False None \<in> set new"
proof -
  let ?R = "roster_events ms"
  from assms(1,3) consider "Fit a ''late_delivery'' b x \<in> set (take k ?R)"
    | "Fit a ''late_delivery'' b x \<in> set rest"
    by auto
  then show ?thesis
  proof cases
    case 1
    then obtain i where i: "i < length (take k ?R)" and e: "take k ?R ! i = Fit a ''late_delivery'' b x"
      by (auto simp: in_set_conv_nth)
    then have il: "i < 4 * length ms" "i < k" and r: "?R ! i = Fit a ''late_delivery'' b x"
      by (simp_all add: length_roster_events)
    from late_fit_position[OF il(1) r] have p: "b" "a \<in> set ms" "2 \<le> i"
      "?R ! (i - 2) = Fit a ''fraud'' False None"
      by simp_all
    have "i - 2 < length (take k ?R)" using il by (auto simp: length_roster_events)
    then have "take k ?R ! (i - 2) \<in> set (take k ?R)" by (rule nth_mem)
    moreover have "take k ?R ! (i - 2) = ?R ! (i - 2)" using il(2) by simp
    ultimately have "Fit a ''fraud'' False None \<in> set (take k ?R)" using p(4) by simp
    with p assms(1) show ?thesis by simp
  next
    case 2
    with assms(2) have k: "k < 4 * length ms"
      and t: "raise_at e (?R ! k) = Fit a ''late_delivery'' b x"
      by auto
    from raise_at_Fit[OF t] obtain x0 where r: "?R ! k = Fit a ''late_delivery'' b x0"
      by blast
    from late_fit_position[OF k r] have p: "b" "a \<in> set ms" "2 \<le> k"
      "?R ! (k - 2) = Fit a ''fraud'' False None"
      by simp_all
    have "k - 2 < length (take k ?R)" using k p(3) by (simp add: length_roster_events)
    then have "take k ?R ! (k - 2) \<in> set (take k ?R)" by (rule nth_mem)
    moreover have "take k ?R ! (k - 2) = ?R ! (k - 2)" using p(3) by simp
    ultimately have "Fit a ''fraud'' False None \<in> set (take k ?R)" using p(4) by simp
    with p assms(1) show ?thesis by simp
  qed
qed

lemma fraud_fit_in_run:
  assumes "new = take k (roster_events ms) @ rest"
    and "rest = [] \<or> (k < 4 * length ms \<and> rest = [raise_at e (roster_events ms ! k)]) \<or>
         (\<exists>f rows. rest = [ToCsv f rows])"
    and "Fit a ''fraud'' b x \<in> set new"
  shows "\<not> b"
proof -
  let ?R = "roster_events ms"
  from assms(1,3) consider "Fit a ''fraud'' b x \<in> set (take k ?R)"
    | "Fit a ''fraud'' b x \<in> set rest"
    by auto
  then show ?thesis
  proof cases
    case 1
    then have "Fit a ''fraud'' b x \<in> set ?R" by (rule in_set_takeD)
    then obtain i where "i < 4 * length ms" "?R ! i = Fit a ''fraud'' b x"
      by (auto simp: in_set_conv_nth length_roster_events)
    then show ?thesis by (rule fraud_fit_position)
  next
    case 2
    with assms(2) have k: "k < 4 * length ms"
      and t: "raise_at e (?R ! k) = Fit a ''fraud'' b x"
      by auto
    from raise_at_Fit[OF t] obtain x0 where "?R ! k = Fit a ''fraud'' b x0"
      by blast
    with k show ?thesis by (rule fraud_fit_position)
  qed
qed

lemma no_write_roster_events: "filter is_write (roster_events ms) = []"
  using roster_events_quiet[of _ ms] by (simp add: filter_empty_conv)

lemma length_roster [simp]: "length roster = 9"
  by (simp add: roster_def)

lemma run_models_cases:
  assumes "run_models S X_train_f X_test_f y_train_f y_test_f X_train_l X_test_l y_train_l y_test_l w
             = (r, w')"
  obtains (ok) results w1 where "r = Inr results"
      "run_loop S (X_train_f, X_test_f, y_train_f, y_test_f) (X_train_l, X_test_l, y_train_l, y_test_l)
         [length (objects w)..<length (objects w) + 9] []
         (w\<lparr>objects := objects w @ map (\<lambda>k. (k, None)) roster\<rparr>) = (Inr results, w1)"
      "w' = w1\<lparr>trace := trace w1 @ [ToCsv ''model_results.txt'' results]\<rparr>"
    | (raised) e where "r = Inl e"
      "run_loop S (X_train_f, X_test_f, y_train_f, y_test_f) (X_train_l, X_test_l, y_train_l, y_test_l)
         [length (objects w)..<length (objects w) + 9] []
         (w\<lparr>objects := objects w @ map (\<lambda>k. (k, None)) roster\<rparr>) = (Inl e, w')"
  using assms by (auto simp: run_models_def Let_def split: prod.splits sum.splits)

lemma roster_fresh:
  "\<forall>a\<in>set [length (objects w)..<length (objects w) + 9].
     a < length (objects (w\<lparr>objects := objects w @ map (\<lambda>k. (k, None)) roster\<rparr>)) \<and>
     snd (objects (w\<lparr>objects := objects w @ map (\<lambda>k. (k, None)) roster\<rparr>) ! a) = None"
  by (auto simp: nth_append)

text \<open>
  The rows of a run of the loop over the roster that returns: the row of each model holds
  its class name and the metrics of both targets, each computed from the predictions made
  with what \<^verbatim>\<open>fit\<close> returned for that target, and the object is left with what the \<^verbatim>\<open>fit\<close>
  for the late-delivery target returned.
\<close>

lemma run_loop_roster_rows:
  assumes "run_loop S (X_train_f, X_test_f, y_train_f, y_test_f)
             (X_train_l, X_test_l, y_train_l, y_test_l)
             [length (objects w)..<length (objects w) + 9] []
             (w\<lparr>objects := objects w @ map (\<lambda>k. (k, None)) roster\<rparr>) = (Inr results, w1)"
    and "i < 9"
  shows "length results = 9"
    and "Model (results ! i) = class_name (roster ! i)"
    and "\<exists>g g' p. fit S (roster ! i) X_train_f (svalues y_train_f) g = (Inr p, g') \<and>
           scored S (roster ! i) p X_test_f y_test_f (fraud_metrics (results ! i))"
    and "\<exists>g g' p. fit S (roster ! i) X_train_l (svalues y_train_l) g = (Inr p, g') \<and>
           scored S (roster ! i) p X_test_l y_test_l (late_metrics (results ! i)) \<and>
           objects w1 ! (length (objects w) + i) = (roster ! i, Some p)"
proof -
  let ?ms = "[length (objects w)..<length (objects w) + 9]"
  let ?w0 = "w\<lparr>objects := objects w @ map (\<lambda>k. (k, None)) roster\<rparr>"
  let ?P = "\<lambda>a row.
     Model row = class_name (fst (objects ?w0 ! a)) \<and>
     (\<exists>g g' p. fit S (fst (objects ?w0 ! a)) X_train_f (svalues y_train_f) g = (Inr p, g') \<and>
        scored S (fst (objects ?w0 ! a)) p X_test_f y_test_f (fraud_metrics row)) \<and>
     (\<exists>g g' p. fit S (fst (objects ?w0 ! a)) X_train_l (svalues y_train_l) g = (Inr p, g') \<and>
        scored S (fst (objects ?w0 ! a)) p X_test_l y_test_l (late_metrics row) \<and>
        objects w1 ! a = (fst (objects ?w0 ! a), Some p))"
  from run_loop_Inr[OF assms(1) _ roster_fresh]
  have la: "list_all2 ?P ?ms results"
    by simp
  from list_all2_lengthD[OF la] show "length results = 9" by simp
  have i: "i < length ?ms" using assms(2) by simp
  have m: "?ms ! i = length (objects w) + i" using assms(2) by simp
  have k: "fst (objects ?w0 ! (length (objects w) + i)) = roster ! i"
    using assms(2) by (simp add: nth_append)
  from list_all2_nthD[OF la i] have "?P (?ms ! i) (results ! i)" .
  then have p: "?P (length (objects w) + i) (results ! i)" by (simp only: m)
  from p show "Model (results ! i) = class_name (roster ! i)"
    by (simp only: k)
  from p show "\<exists>g g' p. fit S (roster ! i) X_train_f (svalues y_train_f) g = (Inr p, g') \<and>
           scored S (roster ! i) p X_test_f y_test_f (fraud_metrics (results ! i))"
    by (simp only: k)
  from p show "\<exists>g g' p. fit S (roster ! i) X_train_l (svalues y_train_l) g = (Inr p, g') \<and>
           scored S (roster ! i) p X_test_l y_test_l (late_metrics (results ! i)) \<and>
           objects w1 ! (length (objects w) + i) = (roster ! i, Some p)"
    by (simp only: k)
qed

text \<open>The events of a run of the loop that stops at a call that raises, or after one.\<close>

lemma raising_run_events:
  assumes "k < 4 * length ms"
    and "new = take k (roster_events ms) @ [raise_at e (roster_events ms ! k)]"
  shows "filter is_write new = []"
    and "\<forall>ev\<in>set new. \<forall>e'. raised ev = Some e' \<longrightarrow> e' = e \<and> last new = ev"
proof -
  let ?R = "roster_events ms"
  have q: "\<forall>ev\<in>set (take k ?R). raised ev = None \<and> \<not> is_write ev"
    using roster_events_quiet by (auto dest: in_set_takeD)
  have "?R ! k \<in> set ?R"
    using assms(1) by (simp add: length_roster_events)
  then have "\<not> is_write (?R ! k)"
    using roster_events_quiet by blast
  then have r: "raised (raise_at e (?R ! k)) = Some e" "\<not> is_write (raise_at e (?R ! k))"
    using raised_raise_at by blast+
  from q r(2) show "filter is_write new = []"
    by (simp add: assms(2) filter_empty_conv)
  from q r(1) show "\<forall>ev\<in>set new. \<forall>e'. raised ev = Some e' \<longrightarrow> e' = e \<and> last new = ev"
    by (auto simp: assms(2))
qed

lemma stopped_run_events:
  assumes "new = take k (roster_events ms)"
  shows "filter is_write new = []" and "\<forall>ev\<in>set new. raised ev = None"
proof -
  have q: "\<forall>ev\<in>set (take k (roster_events ms)). raised ev = None \<and> \<not> is_write ev"
    using roster_events_quiet by (auto dest: in_set_takeD)
  from q show "filter is_write new = []"
    by (simp add: assms filter_empty_conv)
  from q show "\<forall>ev\<in>set new. raised ev = None"
    by (simp add: assms)
qed

text \<open>
  C8. When \<^verbatim>\<open>run_models\<close> returns, the events it has added are the 36 calls of \<^verbatim>\<open>fit\<close> and
  \<^verbatim>\<open>predict\<close> (nine models, two targets), none of which raised, followed by one write of
  \<^verbatim>\<open>model_results.txt\<close>; for every model and both targets \<^verbatim>\<open>fit\<close> returned and \<^verbatim>\<open>predict\<close> and
  the metrics returned on what it learned. When \<^verbatim>\<open>run_models\<close> raises, the events it has
  added are a beginning of those 36 calls, followed by the call that raised if it is a
  call of \<^verbatim>\<open>fit\<close> or \<^verbatim>\<open>predict\<close>: no later call is made and nothing is written. A call of
  \<^verbatim>\<open>fit\<close> or \<^verbatim>\<open>predict\<close> that raises an error makes \<^verbatim>\<open>run_models\<close> raise that error, is
  the last call made, and nothing is written.
\<close>

theorem run_models_writes_once_after_all_models:
  assumes "run_models S X_train_f X_test_f y_train_f y_test_f X_train_l X_test_l y_train_l y_test_l w
             = (r, w')"
  shows "\<exists>new. trace w' = trace w @ new \<and>
           (\<forall>results. r = Inr results \<longrightarrow>
              new = roster_events [length (objects w)..<length (objects w) + 9] @
                    [ToCsv ''model_results.txt'' results] \<and>
              filter is_write new = [ToCsv ''model_results.txt'' results] \<and>
              length (roster_events [length (objects w)..<length (objects w) + 9]) = 36 \<and>
              length results = 9 \<and>
              (\<forall>ev\<in>set new. raised ev = None) \<and>
              (\<forall>i<9.
                 (\<exists>g g' p. fit S (roster ! i) X_train_f (svalues y_train_f) g = (Inr p, g') \<and>
                    scored S (roster ! i) p X_test_f y_test_f (fraud_metrics (results ! i))) \<and>
                 (\<exists>g g' p. fit S (roster ! i) X_train_l (svalues y_train_l) g = (Inr p, g') \<and>
                    scored S (roster ! i) p X_test_l y_test_l (late_metrics (results ! i))))) \<and>
           (\<forall>e. r = Inl e \<longrightarrow>
              ((\<exists>k<36. new = take k (roster_events [length (objects w)..<length (objects w) + 9]) @
                          [raise_at e
                             (roster_events [length (objects w)..<length (objects w) + 9] ! k)]) \<or>
               (\<exists>k. 0 < k \<and> k \<le> 36 \<and> even k \<and>
                  new = take k (roster_events [length (objects w)..<length (objects w) + 9]))) \<and>
              filter is_write new = []) \<and>
           (\<forall>ev\<in>set new. \<forall>e. raised ev = Some e \<longrightarrow>
              r = Inl e \<and> last new = ev \<and> filter is_write new = [])"
  using assms
proof (cases rule: run_models_cases)
  case (ok results w1)
  let ?R = "roster_events [length (objects w)..<length (objects w) + 9]"
  let ?new = "?R @ [ToCsv ''model_results.txt'' results]"
  from run_loop_Inr[OF ok(2) _ roster_fresh]
  have "trace w1 = trace w @ ?R"
    by simp
  with ok(3) have t: "trace w' = trace w @ ?new"
    by simp
  have w: "filter is_write ?new = [ToCsv ''model_results.txt'' results]"
    by (simp add: no_write_roster_events)
  have l: "length ?R = 36"
    by (simp add: length_roster_events)
  have q: "\<forall>ev\<in>set ?new. raised ev = None"
    using roster_events_quiet[of _ "[length (objects w)..<length (objects w) + 9]"] by auto
  have rows: "\<forall>i<9.
      (\<exists>g g' p. fit S (roster ! i) X_train_f (svalues y_train_f) g = (Inr p, g') \<and>
         scored S (roster ! i) p X_test_f y_test_f (fraud_metrics (results ! i))) \<and>
      (\<exists>g g' p. fit S (roster ! i) X_train_l (svalues y_train_l) g = (Inr p, g') \<and>
         scored S (roster ! i) p X_test_l y_test_l (late_metrics (results ! i)))"
    using run_loop_roster_rows(3,4)[OF ok(2)] by blast
  have n: "length results = 9"
    using run_loop_roster_rows(1)[OF ok(2), of 0] by simp
  have "(\<forall>results'. r = Inr results' \<longrightarrow>
              ?new = ?R @ [ToCsv ''model_results.txt'' results'] \<and>
              filter is_write ?new = [ToCsv ''model_results.txt'' results'] \<and>
              length ?R = 36 \<and> length results' = 9 \<and>
              (\<forall>ev\<in>set ?new. raised ev = None) \<and>
              (\<forall>i<9.
                 (\<exists>g g' p. fit S (roster ! i) X_train_f (svalues y_train_f) g = (Inr p, g') \<and>
                    scored S (roster ! i) p X_test_f y_test_f (fraud_metrics (results' ! i))) \<and>
                 (\<exists>g g' p. fit S (roster ! i) X_train_l (svalues y_train_l) g = (Inr p, g') \<and>
                    scored S (roster ! i) p X_test_l y_test_l (late_metrics (results' ! i)))))"
    using w l q rows n ok(1) by simp
  moreover have "\<forall>e. r = Inl e \<longrightarrow>
              ((\<exists>k<36. ?new = take k ?R @ [raise_at e (?R ! k)]) \<or>
               (\<exists>k. 0 < k \<and> k \<le> 36 \<and> even k \<and> ?new = take k ?R)) \<and>
              filter is_write ?new = []"
    using ok(1) by simp
  moreover have "\<forall>ev\<in>set ?new. \<forall>e. raised ev = Some e \<longrightarrow>
              r = Inl e \<and> last ?new = ev \<and> filter is_write ?new = []"
    using q by simp
  ultimately show ?thesis
    using t by blast
next
  case (raised e)
  let ?ms = "[length (objects w)..<length (objects w) + 9]"
  let ?R = "roster_events ?ms"
  from run_loop_Inl[OF raised(2) _ roster_fresh]
  obtain new where t: "trace w' = trace w @ new"
    and sh: "(\<exists>k<36. new = take k ?R @ [raise_at e (?R ! k)]) \<or>
             (\<exists>k. 0 < k \<and> k \<le> 36 \<and> even k \<and> new = take k ?R)"
    by auto
  have p: "filter is_write new = [] \<and>
           (\<forall>ev\<in>set new. \<forall>e'. raised ev = Some e' \<longrightarrow> e' = e \<and> last new = ev)"
    using sh
  proof
    assume "\<exists>k<36. new = take k ?R @ [raise_at e (?R ! k)]"
    then obtain k where k: "k < 4 * length ?ms" and n: "new = take k ?R @ [raise_at e (?R ! k)]"
      by auto
    from raising_run_events[OF k n] show ?thesis
      by blast
  next
    assume "\<exists>k. 0 < k \<and> k \<le> 36 \<and> even k \<and> new = take k ?R"
    then obtain k where n: "new = take k ?R"
      by auto
    from stopped_run_events[OF n] show ?thesis
      by simp
  qed
  have "\<forall>results. r = Inr results \<longrightarrow>
              new = ?R @ [ToCsv ''model_results.txt'' results] \<and>
              filter is_write new = [ToCsv ''model_results.txt'' results] \<and>
              length ?R = 36 \<and> length results = 9 \<and>
              (\<forall>ev\<in>set new. raised ev = None) \<and>
              (\<forall>i<9.
                 (\<exists>g g' p. fit S (roster ! i) X_train_f (svalues y_train_f) g = (Inr p, g') \<and>
                    scored S (roster ! i) p X_test_f y_test_f (fraud_metrics (results ! i))) \<and>
                 (\<exists>g g' p. fit S (roster ! i) X_train_l (svalues y_train_l) g = (Inr p, g') \<and>
                    scored S (roster ! i) p X_test_l y_test_l (late_metrics (results ! i))))"
    using raised(1) by simp
  moreover have "\<forall>e'. r = Inl e' \<longrightarrow>
              ((\<exists>k<36. new = take k ?R @ [raise_at e' (?R ! k)]) \<or>
               (\<exists>k. 0 < k \<and> k \<le> 36 \<and> even k \<and> new = take k ?R)) \<and>
              filter is_write new = []"
    using raised(1) sh p by simp
  moreover have "\<forall>ev\<in>set new. \<forall>e'. raised ev = Some e' \<longrightarrow>
              r = Inl e' \<and> last new = ev \<and> filter is_write new = []"
    using raised(1) p by simp
  ultimately show ?thesis
    using t by blast
qed

lemma run_models_example_result:
  "fst (run_models example_sklearn example_X_train_fraud example_X_test_fraud example_y_train
          example_y_test example_X_train_late example_X_test_late example_y_train_late
          example_y_test_late example_world) =
     Inr example_results"
  by code_simp

lemma run_models_example_trace:
  "trace (snd (run_models example_sklearn example_X_train_fraud example_X_test_fraud
                 example_y_train example_y_test example_X_train_late example_X_test_late
                 example_y_train_late example_y_test_late example_world)) =
     roster_events [0..<9] @ [ToCsv ''model_results.txt'' example_results]"
  by code_simp

lemma run_models_failing_trace:
  "trace (snd (run_models failing_sklearn example_X_train_fraud example_X_test_fraud
                 example_y_train example_y_test example_X_train_late example_X_test_late
                 example_y_train_late example_y_test_late example_world)) =
     model_events 0 @ model_events 1 @ model_events 2 @ model_events 3 @
     [Fit 4 ''fraud'' False (Some (LibError 2))]"
  by code_simp

lemma run_models_failing_predict_trace:
  "trace (snd (run_models failing_predict_sklearn example_X_train_fraud example_X_test_fraud
                 example_y_train example_y_test example_X_train_late example_X_test_late
                 example_y_train_late example_y_test_late example_world)) =
     model_events 0 @ [Fit 1 ''fraud'' False None, Predict 1 ''fraud'' (Some (LibError 3))]"
  by code_simp

theorem run_models_writes_once_after_all_models_witness:
  "fst (run_models example_sklearn example_X_train_fraud example_X_test_fraud example_y_train
          example_y_test example_X_train_late example_X_test_late example_y_train_late
          example_y_test_late example_world) =
     Inr example_results \<and>
   filter is_write
     (trace (snd (run_models example_sklearn example_X_train_fraud example_X_test_fraud
                    example_y_train example_y_test example_X_train_late example_X_test_late
                    example_y_train_late example_y_test_late example_world))) =
     [ToCsv ''model_results.txt'' example_results] \<and>
   trace (snd (run_models failing_sklearn example_X_train_fraud example_X_test_fraud
                 example_y_train example_y_test example_X_train_late example_X_test_late
                 example_y_train_late example_y_test_late example_world)) =
     model_events 0 @ model_events 1 @ model_events 2 @ model_events 3 @
     [Fit 4 ''fraud'' False (Some (LibError 2))] \<and>
   fst (run_models failing_sklearn example_X_train_fraud example_X_test_fraud example_y_train
          example_y_test example_X_train_late example_X_test_late example_y_train_late
          example_y_test_late example_world) =
     Inl (LibError 2) \<and>
   filter is_write
     (trace (snd (run_models failing_sklearn example_X_train_fraud example_X_test_fraud
                    example_y_train example_y_test example_X_train_late example_X_test_late
                    example_y_train_late example_y_test_late example_world))) = [] \<and>
   trace (snd (run_models failing_predict_sklearn example_X_train_fraud example_X_test_fraud
                 example_y_train example_y_test example_X_train_late example_X_test_late
                 example_y_train_late example_y_test_late example_world)) =
     model_events 0 @ [Fit 1 ''fraud'' False None, Predict 1 ''fraud'' (Some (LibError 3))] \<and>
   fst (run_models failing_predict_sklearn example_X_train_fraud example_X_test_fraud
          example_y_train example_y_test example_X_train_late example_X_test_late
          example_y_train_late example_y_test_late example_world) =
     Inl (LibError 3) \<and>
   filter is_write
     (trace (snd (run_models failing_predict_sklearn example_X_train_fraud example_X_test_fraud
                    example_y_train example_y_test example_X_train_late example_X_test_late
                    example_y_train_late example_y_test_late example_world))) = []"
proof -
  let ?ok = "run_models example_sklearn example_X_train_fraud example_X_test_fraud
               example_y_train example_y_test example_X_train_late example_X_test_late
               example_y_train_late example_y_test_late example_world"
  let ?bad = "run_models failing_sklearn example_X_train_fraud example_X_test_fraud
               example_y_train example_y_test example_X_train_late example_X_test_late
               example_y_train_late example_y_test_late example_world"
  let ?badp = "run_models failing_predict_sklearn example_X_train_fraud example_X_test_fraud
               example_y_train example_y_test example_X_train_late example_X_test_late
               example_y_train_late example_y_test_late example_world"
  have t0: "trace example_world = []"
    by (simp add: example_world_def)
  have "?ok = (fst ?ok, snd ?ok)" by simp
  from run_models_writes_once_after_all_models[OF this]
  obtain new where "trace (snd ?ok) = trace example_world @ new"
    and "\<forall>results. fst ?ok = Inr results \<longrightarrow>
           filter is_write new = [ToCsv ''model_results.txt'' results]"
    by blast
  with t0 run_models_example_result
  have a: "filter is_write (trace (snd ?ok)) = [ToCsv ''model_results.txt'' example_results]"
    by simp
  have "?bad = (fst ?bad, snd ?bad)" by simp
  from run_models_writes_once_after_all_models[OF this]
  obtain new2 where "trace (snd ?bad) = trace example_world @ new2"
    and "\<forall>ev\<in>set new2. \<forall>e. raised ev = Some e \<longrightarrow>
           fst ?bad = Inl e \<and> last new2 = ev \<and> filter is_write new2 = []"
    by blast
  then have c2: "\<forall>ev\<in>set (trace (snd ?bad)). \<forall>e. raised ev = Some e \<longrightarrow>
           fst ?bad = Inl e \<and> filter is_write (trace (snd ?bad)) = []"
    using t0 by simp
  have "Fit 4 ''fraud'' False (Some (LibError 2)) \<in> set (trace (snd ?bad))"
    by (simp only: run_models_failing_trace) simp
  with c2 have b: "fst ?bad = Inl (LibError 2) \<and> filter is_write (trace (snd ?bad)) = []"
    by fastforce
  have "?badp = (fst ?badp, snd ?badp)" by simp
  from run_models_writes_once_after_all_models[OF this]
  obtain new3 where "trace (snd ?badp) = trace example_world @ new3"
    and "\<forall>ev\<in>set new3. \<forall>e. raised ev = Some e \<longrightarrow>
           fst ?badp = Inl e \<and> last new3 = ev \<and> filter is_write new3 = []"
    by blast
  then have c3: "\<forall>ev\<in>set (trace (snd ?badp)). \<forall>e. raised ev = Some e \<longrightarrow>
           fst ?badp = Inl e \<and> filter is_write (trace (snd ?badp)) = []"
    using t0 by simp
  have "Predict 1 ''fraud'' (Some (LibError 3)) \<in> set (trace (snd ?badp))"
    by (simp only: run_models_failing_predict_trace) simp
  with c3 have c: "fst ?badp = Inl (LibError 3) \<and> filter is_write (trace (snd ?badp)) = []"
    by fastforce
  from a b c run_models_example_result run_models_failing_trace run_models_failing_predict_trace
  show ?thesis by (simp only: simp_thms)
qed

lemma object_events:
  "distinct ms \<Longrightarrow> a \<in> set ms \<Longrightarrow>
   filter (\<lambda>e. event_object e = Some a) (roster_events ms) = model_events a"
proof (induction ms)
  case Nil
  then show ?case by simp
next
  case (Cons m ms)
  have other: "a \<notin> set ms \<Longrightarrow> filter (\<lambda>e. event_object e = Some a) (roster_events ms) = []" for ms
    by (induction ms) (auto simp: roster_events_def model_events_def)
  show ?case
  proof (cases "a = m")
    case True
    with Cons.prems(1) have "a \<notin> set ms" by simp
    from other[OF this] True show ?thesis
      by (simp add: roster_events_Cons) (simp add: model_events_def)
  next
    case False
    with Cons.prems have "a \<in> set ms" "distinct ms" by simp_all
    from Cons.IH[OF this(2,1)] False show ?thesis
      by (simp add: roster_events_Cons) (simp add: model_events_def)
  qed
qed

text \<open>
  C5, as the code has it. Each model object of the roster is used for both targets: every
  call of \<^verbatim>\<open>fit\<close> for the late-delivery target is made on an object of the roster that is
  already fitted, after the call of \<^verbatim>\<open>fit\<close> for the fraud target on that same object, which
  was fresh. When the loop ends, the calls on each object are its four calls and no others:
  an object is not used after its row is recorded. The second \<^verbatim>\<open>fit\<close> replaces what the
  object learned: the object is left with what the \<^verbatim>\<open>fit\<close> on the late-delivery split
  returned, the late-delivery metrics of its row are those of the predictions made with
  that, and the fraud metrics those of the predictions made with what the \<^verbatim>\<open>fit\<close> on the
  fraud split returned.
\<close>

theorem run_models_refits_same_object:
  assumes "run_models S X_train_f X_test_f y_train_f y_test_f X_train_l X_test_l y_train_l y_test_l w
             = (r, w')"
  shows "\<exists>new. trace w' = trace w @ new \<and>
           (\<forall>a b x. Fit a ''late_delivery'' b x \<in> set new \<longrightarrow>
              b \<and> a \<in> set [length (objects w)..<length (objects w) + 9] \<and>
              Fit a ''fraud'' False None \<in> set new) \<and>
           (\<forall>a b x. Fit a ''fraud'' b x \<in> set new \<longrightarrow> \<not> b) \<and>
           (\<forall>results. r = Inr results \<longrightarrow>
              length results = 9 \<and>
              (\<forall>a\<in>set [length (objects w)..<length (objects w) + 9].
                 filter (\<lambda>e. event_object e = Some a) new = model_events a \<and>
                 fst (objects w' ! a) = roster ! (a - length (objects w)) \<and>
                 snd (objects w' ! a) \<noteq> None \<and>
                 Model (results ! (a - length (objects w))) =
                   class_name (roster ! (a - length (objects w))) \<and>
                 (\<exists>g g' p.
                    fit S (roster ! (a - length (objects w))) X_train_f (svalues y_train_f) g =
                      (Inr p, g') \<and>
                    scored S (roster ! (a - length (objects w))) p X_test_f y_test_f
                      (fraud_metrics (results ! (a - length (objects w))))) \<and>
                 (\<exists>g g' p.
                    fit S (roster ! (a - length (objects w))) X_train_l (svalues y_train_l) g =
                      (Inr p, g') \<and>
                    objects w' ! a = (roster ! (a - length (objects w)), Some p) \<and>
                    scored S (roster ! (a - length (objects w))) p X_test_l y_test_l
                      (late_metrics (results ! (a - length (objects w)))))))"
  using assms
proof (cases rule: run_models_cases)
  case (ok results w1)
  let ?ms = "[length (objects w)..<length (objects w) + 9]"
  let ?R = "roster_events ?ms"
  let ?new = "?R @ [ToCsv ''model_results.txt'' results]"
  from run_loop_Inr[OF ok(2) _ roster_fresh]
  have "trace w1 = trace w @ ?R"
    by simp
  with ok(3) have t: "trace w' = trace w @ ?new"
    by simp
  have shape: "?new = take 36 ?R @ [ToCsv ''model_results.txt'' results]"
    by (simp add: length_roster_events)
  have late: "\<forall>a b x. Fit a ''late_delivery'' b x \<in> set ?new \<longrightarrow>
                b \<and> a \<in> set ?ms \<and> Fit a ''fraud'' False None \<in> set ?new"
    using late_fit_in_run[OF shape] by blast
  have fraud: "\<forall>a b x. Fit a ''fraud'' b x \<in> set ?new \<longrightarrow> \<not> b"
    using fraud_fit_in_run[OF shape] by blast
  have n: "length results = 9"
    using run_loop_roster_rows(1)[OF ok(2), of 0] by simp
  have objs: "filter (\<lambda>e. event_object e = Some a) ?new = model_events a \<and>
              fst (objects w' ! a) = roster ! (a - length (objects w)) \<and>
              snd (objects w' ! a) \<noteq> None \<and>
              Model (results ! (a - length (objects w))) =
                class_name (roster ! (a - length (objects w))) \<and>
              (\<exists>g g' p.
                 fit S (roster ! (a - length (objects w))) X_train_f (svalues y_train_f) g =
                   (Inr p, g') \<and>
                 scored S (roster ! (a - length (objects w))) p X_test_f y_test_f
                   (fraud_metrics (results ! (a - length (objects w))))) \<and>
              (\<exists>g g' p.
                 fit S (roster ! (a - length (objects w))) X_train_l (svalues y_train_l) g =
                   (Inr p, g') \<and>
                 objects w' ! a = (roster ! (a - length (objects w)), Some p) \<and>
                 scored S (roster ! (a - length (objects w))) p X_test_l y_test_l
                   (late_metrics (results ! (a - length (objects w)))))"
    if a: "a \<in> set ?ms" for a
  proof -
    let ?i = "a - length (objects w)"
    from a have i: "?i < 9" and ai: "length (objects w) + ?i = a"
      by auto
    have o: "objects w' = objects w1"
      using ok(3) by simp
    have ev: "filter (\<lambda>e. event_object e = Some a) ?new = model_events a"
      using object_events[of ?ms a] a by simp
    note rows = run_loop_roster_rows[OF ok(2) i]
    from rows(4) obtain g g' p
      where l: "fit S (roster ! ?i) X_train_l (svalues y_train_l) g = (Inr p, g')"
        "scored S (roster ! ?i) p X_test_l y_test_l (late_metrics (results ! ?i))"
        "objects w1 ! a = (roster ! ?i, Some p)"
      unfolding ai by blast
    from l(3) have st: "fst (objects w' ! a) = roster ! ?i" "snd (objects w' ! a) \<noteq> None"
      "objects w' ! a = (roster ! ?i, Some p)"
      by (simp_all add: o)
    from l(1,2) st(3) have "\<exists>g g' p.
        fit S (roster ! ?i) X_train_l (svalues y_train_l) g = (Inr p, g') \<and>
        objects w' ! a = (roster ! ?i, Some p) \<and>
        scored S (roster ! ?i) p X_test_l y_test_l (late_metrics (results ! ?i))"
      by blast
    with ev st(1,2) rows(2,3) show ?thesis
      by blast
  qed
  from t late fraud n objs ok(1) show ?thesis
    by blast
next
  case (raised e)
  let ?ms = "[length (objects w)..<length (objects w) + 9]"
  let ?R = "roster_events ?ms"
  from run_loop_Inl[OF raised(2) _ roster_fresh]
  obtain new where t: "trace w' = trace w @ new"
    and sh: "(\<exists>k<4 * length ?ms. new = take k ?R @ [raise_at e (?R ! k)]) \<or>
             (\<exists>k. 0 < k \<and> k \<le> 4 * length ?ms \<and> even k \<and> new = take k ?R)"
    by auto
  from sh obtain k rest where shape: "new = take k ?R @ rest"
    and rest: "rest = [] \<or> (k < 4 * length ?ms \<and> rest = [raise_at e (?R ! k)]) \<or>
               (\<exists>f rows. rest = [ToCsv f rows])"
    by auto
  have late: "\<forall>a b x. Fit a ''late_delivery'' b x \<in> set new \<longrightarrow>
                b \<and> a \<in> set ?ms \<and> Fit a ''fraud'' False None \<in> set new"
    using late_fit_in_run[OF shape rest] by blast
  have fraud: "\<forall>a b x. Fit a ''fraud'' b x \<in> set new \<longrightarrow> \<not> b"
    using fraud_fit_in_run[OF shape rest] by blast
  from t late fraud raised(1) show ?thesis
    by blast
qed

theorem run_models_refits_same_object_witness:
  "fst (run_models example_sklearn example_X_train_fraud example_X_test_fraud example_y_train
          example_y_test example_X_train_late example_X_test_late example_y_train_late
          example_y_test_late example_world) =
     Inr example_results \<and>
   filter (\<lambda>e. event_object e = Some 3)
     (trace (snd (run_models example_sklearn example_X_train_fraud example_X_test_fraud
                    example_y_train example_y_test example_X_train_late example_X_test_late
                    example_y_train_late example_y_test_late example_world))) =
     [Fit 3 ''fraud'' False None, Predict 3 ''fraud'' None,
      Fit 3 ''late_delivery'' True None, Predict 3 ''late_delivery'' None] \<and>
   objects (snd (run_models example_sklearn example_X_train_fraud example_X_test_fraud
                   example_y_train example_y_test example_X_train_late example_X_test_late
                   example_y_train_late example_y_test_late example_world)) ! 3 =
     (KNeighborsClassifier 1, Some [Num 1, Num 0, Num 1, Num 1, Num 0, Num 1]) \<and>
   fraud_metrics (example_results ! 3) = (1 / 2, 0, 0) \<and>
   late_metrics (example_results ! 3) = (1 / 2, 1, 2 / 3)"
proof -
  let ?ok = "run_models example_sklearn example_X_train_fraud example_X_test_fraud
               example_y_train example_y_test example_X_train_late example_X_test_late
               example_y_train_late example_y_test_late example_world"
  have t0: "trace example_world = []" "objects example_world = []"
    by (simp_all add: example_world_def)
  have k: "roster ! 3 = KNeighborsClassifier 1"
    by (simp add: roster_def)
  have "?ok = (fst ?ok, snd ?ok)" by simp
  from run_models_refits_same_object[OF this]
  obtain new where n: "trace (snd ?ok) = trace example_world @ new"
    and s: "\<forall>results. fst ?ok = Inr results \<longrightarrow>
       (\<forall>a\<in>set [length (objects example_world)..<length (objects example_world) + 9].
          filter (\<lambda>e. event_object e = Some a) new = model_events a \<and>
          (\<exists>g g' p.
             fit example_sklearn (roster ! (a - length (objects example_world)))
               example_X_train_late (svalues example_y_train_late) g = (Inr p, g') \<and>
             objects (snd ?ok) ! a =
               (roster ! (a - length (objects example_world)), Some p) \<and>
             scored example_sklearn (roster ! (a - length (objects example_world))) p
               example_X_test_late example_y_test_late
               (late_metrics (example_results ! (a - length (objects example_world))))))"
    using run_models_example_result by auto
  have "(3::nat) \<in> set [length (objects example_world)..<length (objects example_world) + 9]"
    by (simp add: t0)
  with s run_models_example_result
  have ev: "filter (\<lambda>e. event_object e = Some 3) new = model_events 3"
    and "\<exists>g g' p.
           fit example_sklearn (roster ! (3 - length (objects example_world)))
             example_X_train_late (svalues example_y_train_late) g = (Inr p, g') \<and>
           objects (snd ?ok) ! 3 = (roster ! (3 - length (objects example_world)), Some p)"
    by blast+
  then obtain g g' p
    where f: "fit example_sklearn (KNeighborsClassifier 1) example_X_train_late
                (svalues example_y_train_late) g = (Inr p, g')"
      and o: "objects (snd ?ok) ! 3 = (KNeighborsClassifier 1, Some p)"
    by (auto simp: t0 k)
  from f have "p = [Num 1, Num 0, Num 1, Num 1, Num 0, Num 1]"
    by (simp add: example_sklearn_def example_X_train_late_def example_y_train_late_def
          split: if_splits)
  with o have o': "objects (snd ?ok) ! 3 =
      (KNeighborsClassifier 1, Some [Num 1, Num 0, Num 1, Num 1, Num 0, Num 1])"
    by simp
  have m: "fraud_metrics (example_results ! 3) = (1 / 2, 0, 0)"
    "late_metrics (example_results ! 3) = (1 / 2, 1, 2 / 3)"
    by (simp_all add: example_results_def roster_def fraud_metrics_def late_metrics_def)
  from ev n have "filter (\<lambda>e. event_object e = Some 3) (trace (snd ?ok)) = model_events 3"
    by (simp add: t0)
  with run_models_example_result o' m show ?thesis
    by (simp add: model_events_def)
qed

text \<open>
  The claim as the specification states it fails: in the example run the first three calls
  are the \<^verbatim>\<open>fit\<close> and the \<^verbatim>\<open>predict\<close> for the fraud target on the LogisticRegression object
  at address 0, which was fresh, and the \<^verbatim>\<open>fit\<close> for the late-delivery target on the object
  at that same address, which is fitted when \<^verbatim>\<open>fit\<close> is called on it.
\<close>

theorem run_models_same_object_counterexample:
  "take 3 (trace (snd (run_models example_sklearn example_X_train_fraud example_X_test_fraud
                         example_y_train example_y_test example_X_train_late
                         example_X_test_late example_y_train_late example_y_test_late
                         example_world))) =
     [Fit 0 ''fraud'' False None, Predict 0 ''fraud'' None, Fit 0 ''late_delivery'' True None] \<and>
   fst (objects (snd (run_models example_sklearn example_X_train_fraud example_X_test_fraud
                        example_y_train example_y_test example_X_train_late
                        example_X_test_late example_y_train_late example_y_test_late
                        example_world)) ! 0) =
     LogisticRegression ''lbfgs''"
  by code_simp

end
